theory Spec2Isabelle
  imports Main "HOL-Library.AList"
begin

section \<open>Values, exceptions and responses\<close>

text \<open>
  The handlers of \<^verbatim>\<open>account/api.py\<close> receive JSON bodies, keep a session dictionary and
  answer with a JSON body and an HTTP status. A Python dictionary is an association list
  read with \<open>map_of\<close>; Python's \<^verbatim>\<open>None\<close> is \<open>JNull\<close>.
\<close>

datatype json =
    JNull
  | JBool bool
  | JInt int
  | JStr string
  | JList "json list"
  | JDict "(string \<times> json) list"

text \<open>Python's truth value of an object, as \<^verbatim>\<open>x or y\<close> and \<^verbatim>\<open>x and y\<close> test it.\<close>

fun truthy :: "json \<Rightarrow> bool" where
  "truthy JNull = False"
| "truthy (JBool b) = b"
| "truthy (JInt n) = (n \<noteq> 0)"
| "truthy (JStr s) = (s \<noteq> [])"
| "truthy (JList xs) = (xs \<noteq> [])"
| "truthy (JDict kvs) = (kvs \<noteq> [])"

text \<open>
  trafaret's \<^verbatim>\<open>DataError\<close> carries either a message or a dictionary from field names to
  errors; \<^verbatim>\<open>as_dict\<close> turns it into the plain structure that is sent to the client.
\<close>

datatype data_error = Msg string | Fields "(string \<times> data_error) list"

fun as_dict :: "data_error \<Rightarrow> json" where
  "as_dict (Msg s) = JStr s"
| "as_dict (Fields kvs) = JDict (map (\<lambda>(k, e). (k, as_dict e)) kvs)"

text \<open>
  Every \<^verbatim>\<open>raise\<close> and every \<^verbatim>\<open>abort(code)\<close> of the source is a value: a computation
  returns \<open>Inl\<close> of the exception or \<open>Inr\<close> of its result.
\<close>

datatype exc =
    DataError data_error
  | Abort nat
  | KeyError string
  | IndexError
  | TypeError
  | AttributeError
  | ValueError

definition BAD_REQUEST :: nat where "BAD_REQUEST = 400"
definition UNAUTHORIZED :: nat where "UNAUTHORIZED = 401"
definition NOT_FOUND :: nat where "NOT_FOUND = 404"
definition NO_CONTENT :: nat where "NO_CONTENT = 204"

record response =
  body :: json
  status :: nat

text \<open>
  \<^verbatim>\<open>jsonify_status_code(data, status)\<close> of \<^verbatim>\<open>core/utils.py\<close> builds the JSON response
  with the given status.
\<close>

definition jsonify_status_code :: "json \<Rightarrow> nat \<Rightarrow> response" where
  "jsonify_status_code data st = \<lparr>body = data, status = st\<rparr>"


subsection \<open>Python dictionaries\<close>

type_synonym pydict = "(string \<times> json) list"

definition dict_get :: "pydict \<Rightarrow> string \<Rightarrow> json" where
  \<comment> \<open>\<^verbatim>\<open>d.get(k)\<close>\<close>
  "dict_get d k = (case map_of d k of None \<Rightarrow> JNull | Some v \<Rightarrow> v)"


definition subscript :: "pydict \<Rightarrow> string \<Rightarrow> exc + json" where
  \<comment> \<open>\<^verbatim>\<open>d[k]\<close>\<close>
  "subscript d k = (case map_of d k of None \<Rightarrow> Inl (KeyError k) | Some v \<Rightarrow> Inr v)"


definition dict_update :: "pydict \<Rightarrow> pydict \<Rightarrow> pydict" where
  \<comment> \<open>\<^verbatim>\<open>d.update(other)\<close>\<close>
  "dict_update d other = foldl (\<lambda>acc (k, v). AList.update k v acc) d other"

definition dict_keys :: "pydict \<Rightarrow> string set" where
  \<comment> \<open>the keys \<open>k\<close> with \<^verbatim>\<open>k in d\<close>\<close>
  "dict_keys d = fst ` set d"

definition py_or :: "json \<Rightarrow> json \<Rightarrow> json" where
  \<comment> \<open>\<^verbatim>\<open>x or y\<close>\<close>
  "py_or x y = (if truthy x then x else y)"

subsection \<open>Computations with exceptions over a world\<close>

text \<open>
  A handler runs in a world (the session, the logged-in user, the database) that it may
  change, and either returns or raises. \<open>except_DataError\<close> is the handlers'
  \<^verbatim>\<open>try: ... except t.DataError as e: ...\<close>.
\<close>

type_synonym ('a, 'w) io = "'w \<Rightarrow> (exc + 'a) \<times> 'w"

definition returnM :: "'a \<Rightarrow> ('a, 'w) io" where
  "returnM x = (\<lambda>w. (Inr x, w))"

definition raiseM :: "exc \<Rightarrow> ('a, 'w) io" where
  "raiseM e = (\<lambda>w. (Inl e, w))"

definition bindM :: "('a, 'w) io \<Rightarrow> ('a \<Rightarrow> ('b, 'w) io) \<Rightarrow> ('b, 'w) io" where
  "bindM m f = (\<lambda>w. case m w of (Inl e, w') \<Rightarrow> (Inl e, w') | (Inr x, w') \<Rightarrow> f x w')"

definition liftE :: "exc + 'a \<Rightarrow> ('a, 'w) io" where
  \<comment> \<open>a pure step that may raise\<close>
  "liftE r = (\<lambda>w. (r, w))"

definition readM :: "('w \<Rightarrow> 'a) \<Rightarrow> ('a, 'w) io" where
  "readM f = (\<lambda>w. (Inr (f w), w))"

definition modifyM :: "('w \<Rightarrow> 'w) \<Rightarrow> (unit, 'w) io" where
  "modifyM f = (\<lambda>w. (Inr (), f w))"

definition except_DataError :: "('a, 'w) io \<Rightarrow> (data_error \<Rightarrow> ('a, 'w) io) \<Rightarrow> ('a, 'w) io" where
  "except_DataError m h =
     (\<lambda>w. case m w of (Inl (DataError e), w') \<Rightarrow> h e w' | r \<Rightarrow> r)"

section \<open>Resource registration: \<^verbatim>\<open>api_resource\<close>\<close>

text \<open>
  \<^verbatim>\<open>
  def api_resource(bp, endpoint, pk_def):
      pk = pk_def.keys()[0]
      pk_type = pk_def[pk] and pk_def[pk].__name__ or None
      url = "/{}/".format(endpoint)
      collection_methods = ['GET', 'POST']
      item_methods = ['GET', 'PUT', 'DELETE']
      def wrapper(resource_class):
          resource = resource_class().as_view(endpoint)
          bp.add_url_rule(url, view_func=resource, methods=collection_methods)
          if pk_type is None:
              url_rule = "{}<{}>".format(url, pk)
          else:
              url_rule = "{}<{}:{}>".format(url, pk_type, pk)
          bp.add_url_rule(url_rule, view_func=resource, methods=item_methods)
          return resource_class
      return wrapper
  \<close>
  The blueprint is the list of the \<^verbatim>\<open>add_url_rule\<close> calls it has received, oldest first.
  A primary-key definition is the dictionary in its iteration order; the value of a key
  is \<open>None\<close> or the \<^verbatim>\<open>__name__\<close> of the type given. A view is named by the resource class
  and the endpoint it was made from.
\<close>

record 'c view =
  view_class :: 'c
  view_endpoint :: string

record 'c url_rule =
  rule :: string
  view_func :: "'c view"
  methods :: "string list"

type_synonym 'c blueprint = "'c url_rule list"

definition add_url_rule :: "'c blueprint \<Rightarrow> string \<Rightarrow> 'c view \<Rightarrow> string list \<Rightarrow> 'c blueprint" where
  "add_url_rule bp r v ms = bp @ [\<lparr>rule = r, view_func = v, methods = ms\<rparr>]"

definition as_view :: "'c \<Rightarrow> string \<Rightarrow> 'c view" where
  "as_view resource_class endpoint = \<lparr>view_class = resource_class, view_endpoint = endpoint\<rparr>"

definition api_resource ::
  "'c blueprint \<Rightarrow> string \<Rightarrow> (string \<times> string option) list \<Rightarrow> 'c \<Rightarrow> exc + 'c blueprint" where
  "api_resource bp endpoint pk_def resource_class =
     (case pk_def of
        [] \<Rightarrow> Inl IndexError
      | (pk, v) # _ \<Rightarrow>
          (let pk_type = (case v of None \<Rightarrow> None
                                  | Some n \<Rightarrow> if n \<noteq> [] then Some n else None);
               url = ''/'' @ endpoint @ ''/'';
               collection_methods = [''GET'', ''POST''];
               item_methods = [''GET'', ''PUT'', ''DELETE''];
               resource = as_view resource_class endpoint;
               bp1 = add_url_rule bp url resource collection_methods;
               url_rule = (case pk_type of
                             None \<Rightarrow> url @ ''<'' @ pk @ ''>''
                           | Some ty \<Rightarrow> url @ ''<'' @ ty @ '':'' @ pk @ ''>'')
           in Inr (add_url_rule bp1 url_rule resource item_methods)))"

section \<open>The account module's world\<close>

text \<open>
  The rows the handlers of \<^verbatim>\<open>account/api.py\<close> read and write, with the columns they
  use. \<open>user_id = None\<close> marks an anonymous customer. The session is Flask's session
  dictionary; \<open>current_user = None\<close> is the anonymous user. Tables that only the ORM's
  own operations touch live in the record's extension.
\<close>

record user =
  uid :: int
  email :: string
  password :: string
  active :: bool
  first_name :: string
  roles :: "int list"

record role =
  role_id :: int
  role_name :: string

record customer =
  customer_id :: int
  user_id :: "int option"
  shop_id :: json

record cart =
  cart_id :: int
  cart_customer_id :: int
  cart_columns :: pydict

record world =
  session :: "string \<rightharpoonup> json"
  current_user :: "user option"
  users :: "user list"
  role_table :: "role list"
  customers :: "customer list"
  carts :: "cart list"

record request =
  req_json :: json
  req_data :: string
  req_args :: pydict

text \<open>
  What the handlers call outside this repository's sources: Flask-Security and
  Flask-Login (\<^verbatim>\<open>login_user\<close>, \<^verbatim>\<open>logout_user\<close>, \<^verbatim>\<open>verify_password\<close>,
  \<^verbatim>\<open>requires_confirmation\<close>, \<^verbatim>\<open>register_user\<close>, the password-reset and confirmation tokens),
  Flask-Principal's \<^verbatim>\<open>identity_changed\<close> signal, Babel's locale, the mailer, trafaret's
  check of \<^verbatim>\<open>SessionResource.validation\<close>, and the model methods \<^verbatim>\<open>User.is_unique\<close>,
  \<^verbatim>\<open>User.is_superuser\<close>, \<^verbatim>\<open>User.update\<close>, \<^verbatim>\<open>User.save\<close>, \<^verbatim>\<open>Cart.for_customer\<close>
  (as the predicate that selects its rows), \<^verbatim>\<open>as_dict\<close> of a user instance,
  \<^verbatim>\<open>as_dict\<close> of the user's billing and delivery address (\<open>None\<close> when the user has no
  such address) and \<^verbatim>\<open>null_fields_filter\<close> of \<^verbatim>\<open>core/utils.py\<close>. They are parameters of
  the model.
\<close>

record 'a ext =
  session_validation :: "json \<Rightarrow> exc + pydict"
  requires_confirmation :: "user \<Rightarrow> bool"
  verify_password :: "json \<Rightarrow> string \<Rightarrow> bool"
  login_user :: "user \<Rightarrow> 'a world_scheme \<Rightarrow> 'a world_scheme"
  logout_user :: "'a world_scheme \<Rightarrow> 'a world_scheme"
  identity_changed_send :: "'a world_scheme \<Rightarrow> 'a world_scheme"
  for_customer :: "customer \<Rightarrow> cart \<Rightarrow> bool"
  is_superuser :: "user \<Rightarrow> bool"
  locale_language :: string
  is_unique :: "json \<Rightarrow> 'a world_scheme \<Rightarrow> bool"
  register_user :: "json \<Rightarrow> json \<Rightarrow> 'a world_scheme \<Rightarrow> 'a world_scheme"
  reset_password_token_status :: "json \<Rightarrow> 'a world_scheme \<Rightarrow> bool \<times> bool \<times> user option"
  confirm_email_token_status :: "json \<Rightarrow> 'a world_scheme \<Rightarrow> bool \<times> bool \<times> user option"
  confirm_user :: "user \<Rightarrow> 'a world_scheme \<Rightarrow> 'a world_scheme"
  user_save :: "user \<Rightarrow> 'a world_scheme \<Rightarrow> 'a world_scheme"
  user_update :: "user \<Rightarrow> pydict \<Rightarrow> (user, 'a world_scheme) io"
  generate_reset_password_token :: "user \<Rightarrow> string"
  send_email :: "string \<Rightarrow> string \<Rightarrow> string \<Rightarrow> pydict \<Rightarrow> 'a world_scheme \<Rightarrow> 'a world_scheme"
  reset_password_instructions_sent :: "user \<Rightarrow> string \<Rightarrow> 'a world_scheme \<Rightarrow> 'a world_scheme"
  url_root :: string
  null_fields_filter :: "string list \<Rightarrow> json \<Rightarrow> json"
  instance_as_dict :: "user option \<Rightarrow> string list \<Rightarrow> string list \<Rightarrow> pydict"
  billing_address :: "user \<Rightarrow> 'a world_scheme \<Rightarrow> pydict option"
  delivery_address :: "user \<Rightarrow> 'a world_scheme \<Rightarrow> pydict option"

subsection \<open>Session and ORM reads and writes\<close>

definition session_get :: "'a world_scheme \<Rightarrow> string \<Rightarrow> json" where
  \<comment> \<open>\<^verbatim>\<open>session.get(key)\<close>\<close>
  "session_get w k = (case session w k of None \<Rightarrow> JNull | Some v \<Rightarrow> v)"

definition session_set :: "string \<Rightarrow> json \<Rightarrow> 'a world_scheme \<Rightarrow> 'a world_scheme" where
  \<comment> \<open>\<^verbatim>\<open>session[key] = v\<close>\<close>
  "session_set k v w = w\<lparr>session := (session w)(k \<mapsto> v)\<rparr>"

definition session_pop :: "string \<Rightarrow> 'a world_scheme \<Rightarrow> 'a world_scheme" where
  \<comment> \<open>\<^verbatim>\<open>session.pop(key, None)\<close>, its value dropped\<close>
  "session_pop k w = w\<lparr>session := (session w)(k := None)\<rparr>"

definition find_user :: "json \<Rightarrow> 'a world_scheme \<Rightarrow> user option" where
  \<comment> \<open>\<^verbatim>\<open>_security.datastore.find_user(email=e)\<close>: the first user with that email\<close>
  "find_user e w = find (\<lambda>u. JStr (email u) = e) (users w)"


definition Customer_query_get :: "json \<Rightarrow> 'a world_scheme \<Rightarrow> customer option" where
  \<comment> \<open>\<^verbatim>\<open>Customer.query.get(pk)\<close>\<close>
  "Customer_query_get pk w = find (\<lambda>c. JInt (customer_id c) = pk) (customers w)"

definition user_customer :: "user \<Rightarrow> 'a world_scheme \<Rightarrow> customer option" where
  \<comment> \<open>the relationship \<^verbatim>\<open>user.customer\<close>: the customer whose \<^verbatim>\<open>user_id\<close> is the user's id\<close>
  "user_customer u w = find (\<lambda>c. user_id c = Some (uid u)) (customers w)"

definition user_customer_id :: "user \<Rightarrow> (int, 'a world_scheme) io" where
  \<comment> \<open>\<^verbatim>\<open>user.customer.id\<close>: an AttributeError when the user has no customer\<close>
  "user_customer_id u =
     (\<lambda>w. case user_customer u w of None \<Rightarrow> (Inl AttributeError, w)
                                    | Some c \<Rightarrow> (Inr (customer_id c), w))"

definition carts_update_customer_id :: "(cart \<Rightarrow> bool) \<Rightarrow> int \<Rightarrow> 'a world_scheme \<Rightarrow> 'a world_scheme" where
  \<comment> \<open>\<^verbatim>\<open>query.update({'customer_id': v})\<close> on the selected rows of the cart table\<close>
  "carts_update_customer_id sel v w =
     w\<lparr>carts := map (\<lambda>r. if sel r then r\<lparr>cart_customer_id := v\<rparr> else r) (carts w)\<rparr>"

definition customer_delete :: "customer \<Rightarrow> 'a world_scheme \<Rightarrow> 'a world_scheme" where
  \<comment> \<open>\<^verbatim>\<open>customer.delete()\<close>: the row with the customer's primary key is removed\<close>
  "customer_delete c w =
     w\<lparr>customers := filter (\<lambda>x. customer_id x \<noteq> customer_id c) (customers w)\<rparr>"


section \<open>\<^verbatim>\<open>SessionResource\<close>\<close>

text \<open>
  \<^verbatim>\<open>
  def _get_response(self, **kwargs):
      response = {
          'id': session['id'],
          'is_anonymous': current_user.is_anonymous(),
          'uid': session.get('user_id'),
          'system_language': session.get('system_language') or get_locale().language
      }
      if not current_user.is_anonymous() and current_user.is_superuser():
          response['data_language'] = session.get('data_language') or get_locale().language
      response.update(kwargs)
      return response
  \<close>
\<close>

definition get_response :: "'a ext \<Rightarrow> pydict \<Rightarrow> (pydict, 'a world_scheme) io" where
  "get_response X kwargs =
     (\<lambda>w. case session w ''id'' of
            None \<Rightarrow> (Inl (KeyError ''id''), w)
          | Some sid \<Rightarrow>
              (let response =
                     [(''id'', sid),
                      (''is_anonymous'', JBool (current_user w = None)),
                      (''uid'', session_get w ''user_id''),
                      (''system_language'',
                         py_or (session_get w ''system_language'') (JStr (locale_language X)))];
                   response' =
                     (case current_user w of
                        None \<Rightarrow> response
                      | Some u \<Rightarrow>
                          if is_superuser X u
                          then AList.update ''data_language''
                                 (py_or (session_get w ''data_language'') (JStr (locale_language X)))
                                 response
                          else response)
               in (Inr (dict_update response' kwargs), w)))"

text \<open>
  \<^verbatim>\<open>
  def _authenticate(self, data_dict):
      user = _security.datastore.find_user(email=data_dict['email'])
      if user is None:
          raise t.DataError({'email': _("Can't find anyone with this credentials")})
      if requires_confirmation(user):
          raise t.DataError({'email': _("You must confirm the email")})
      if not user.active:
          raise t.DataError({'email': _("You are blocked by the administrator")})
      if verify_password(data_dict.get('password'), user.password):
          if requires_confirmation(user):
              raise t.DataError({'email': _("You must confirm the email")})
          if not user.active:
              raise t.DataError({'email': _("You are blocked by the administrator")})
          login_user(user)
          # Get cart items from anonymous customer
          customer_id = session.get('customer_id')
          if customer_id is not None:
              customer = Customer.query.get(customer_id)
              if customer is not None and customer.user_id is None:
                  Cart.for_customer(customer).update({
                      'customer_id': user.customer.id})
                  customer.delete()
          session['customer_id'] = user.customer.id
      else:
          raise t.DataError({'password': _("Wrong password")})
      return data_dict
  \<close>
  The merge of the anonymous customer is the step after \<^verbatim>\<open>login_user\<close>.
\<close>

definition merge_anonymous_customer :: "'a ext \<Rightarrow> user \<Rightarrow> (unit, 'a world_scheme) io" where
  "merge_anonymous_customer X u =
     bindM (readM (\<lambda>w. session_get w ''customer_id'')) (\<lambda>cid.
       if cid \<noteq> JNull then
         bindM (readM (Customer_query_get cid)) (\<lambda>found.
           case found of
             None \<Rightarrow> returnM ()
           | Some c \<Rightarrow>
               if user_id c = None then
                 bindM (user_customer_id u) (\<lambda>target.
                 bindM (modifyM (carts_update_customer_id (for_customer X c) target)) (\<lambda>_.
                 modifyM (customer_delete c)))
               else returnM ())
       else returnM ())"

definition authenticate :: "'a ext \<Rightarrow> pydict \<Rightarrow> (pydict, 'a world_scheme) io" where
  "authenticate X data_dict =
     bindM (liftE (subscript data_dict ''email'')) (\<lambda>e.
     bindM (readM (find_user e)) (\<lambda>found.
       case found of
         None \<Rightarrow>
           raiseM (DataError (Fields [(''email'', Msg ''Can't find anyone with this credentials'')]))
       | Some u \<Rightarrow>
           if requires_confirmation X u then
             raiseM (DataError (Fields [(''email'', Msg ''You must confirm the email'')]))
           else if \<not> active u then
             raiseM (DataError (Fields [(''email'', Msg ''You are blocked by the administrator'')]))
           else if verify_password X (dict_get data_dict ''password'') (password u) then
             (if requires_confirmation X u then
                raiseM (DataError (Fields [(''email'', Msg ''You must confirm the email'')]))
              else if \<not> active u then
                raiseM (DataError (Fields [(''email'', Msg ''You are blocked by the administrator'')]))
              else
                bindM (modifyM (login_user X u)) (\<lambda>_.
                bindM (merge_anonymous_customer X u) (\<lambda>_.
                bindM (user_customer_id u) (\<lambda>own.
                bindM (modifyM (session_set ''customer_id'' (JInt own))) (\<lambda>_.
                returnM data_dict)))))
           else
             raiseM (DataError (Fields [(''password'', Msg ''Wrong password'')]))))"






text \<open>
  \<^verbatim>\<open>
  def delete(self, id):
      for key in ('identity.name', 'identity.auth_type', 'customer_id'):
          session.pop(key, None)
      identity_changed.send(current_app._get_current_object(),
                            identity=AnonymousIdentity())
      logout_user()
      return jsonify_status_code(self._get_response(), http.NO_CONTENT)
  \<close>
\<close>

definition SessionResource_delete :: "'a ext \<Rightarrow> (response, 'a world_scheme) io" where
  "SessionResource_delete X =
     bindM (modifyM (\<lambda>w. foldl (\<lambda>w' key. session_pop key w') w
                            [''identity.name'', ''identity.auth_type'', ''customer_id''])) (\<lambda>_.
     bindM (modifyM (identity_changed_send X)) (\<lambda>_.
     bindM (modifyM (logout_user X)) (\<lambda>_.
     bindM (get_response X []) (\<lambda>r.
     returnM (jsonify_status_code (JDict r) NO_CONTENT)))))"


section \<open>\<^verbatim>\<open>ProfileResource\<close>\<close>

text \<open>
  \<^verbatim>\<open>
  def _cmp_pwds(self, value):
      if 'password' not in value and 'confirmation' not in value:
          return value
      elif len(value['password']) < 6:
          return {'password': t.DataError(_("Passwords should be more "
                                            "than 6 symbols length"))}
      elif value['password'] != value['confirmation']:
          return {'confirmation': t.DataError(_("Passwords doesn't match"))}
      return {'password': encrypt_password(value['password'])}
  \<close>
  \<^verbatim>\<open>value\<close> is the part of the request body under the keys \<^verbatim>\<open>password\<close> and
  \<^verbatim>\<open>confirmation\<close> (trafaret's \<^verbatim>\<open>KeysSubset\<close>): it holds the keys that are present. The
  entries of the returned dictionary are values or field errors. \<^verbatim>\<open>encrypt_password\<close> is
  Flask-Security's.
\<close>

datatype field = Val json | Err data_error

definition py_len :: "json \<Rightarrow> exc + nat" where
  \<comment> \<open>\<^verbatim>\<open>len(x)\<close>: a TypeError on what has no length\<close>
  "py_len x = (case x of JStr s \<Rightarrow> Inr (length s)
                       | JList xs \<Rightarrow> Inr (length xs)
                       | JDict kvs \<Rightarrow> Inr (length kvs)
                       | _ \<Rightarrow> Inl TypeError)"

definition cmp_pwds :: "(json \<Rightarrow> json) \<Rightarrow> pydict \<Rightarrow> exc + (string \<times> field) list" where
  "cmp_pwds encrypt_password v =
     (if map_of v ''password'' = None \<and> map_of v ''confirmation'' = None then
        Inr (map (\<lambda>(k, x). (k, Val x)) v)
      else
        (case subscript v ''password'' of
           Inl e \<Rightarrow> Inl e
         | Inr p \<Rightarrow>
             (case py_len p of
                Inl e \<Rightarrow> Inl e
              | Inr n \<Rightarrow>
                  if n < 6 then
                    Inr [(''password'',
                          Err (Msg ''Passwords should be more than 6 symbols length''))]
                  else
                    (case subscript v ''confirmation'' of
                       Inl e \<Rightarrow> Inl e
                     | Inr c \<Rightarrow>
                         if p \<noteq> c then
                           Inr [(''confirmation'', Err (Msg ''Passwords doesn't match''))]
                         else Inr [(''password'', Val (encrypt_password p))]))))"

text \<open>
  \<^verbatim>\<open>
  def get_object(self, id):
      if request.json and 'token' in request.json:
          token = request.json['token']
          expired, invalid, instance = confirm_email_token_status(token)
          confirm_user(instance)
          instance.save()
          login_user(instance, True)
      elif current_user.is_superuser():
          instance = User.query.get_or_404(id)
      else:
          instance = g.user
      instance is None and abort(http.NOT_FOUND)
      return instance
  \<close>
  \<^verbatim>\<open>g.user\<close> is the current user. The anonymous user of Flask-Security has no
  \<^verbatim>\<open>is_superuser\<close>.
\<close>

fun is_substring :: "string \<Rightarrow> string \<Rightarrow> bool" where
  "is_substring p [] = (p = [])"
| "is_substring p (c # cs) = (take (length p) (c # cs) = p \<or> is_substring p cs)"

definition json_contains :: "string \<Rightarrow> json \<Rightarrow> exc + bool" where
  \<comment> \<open>\<^verbatim>\<open>k in x\<close>\<close>
  "json_contains k x = (case x of JDict kvs \<Rightarrow> Inr (map_of kvs k \<noteq> None)
                                | JList xs \<Rightarrow> Inr (JStr k \<in> set xs)
                                | JStr s \<Rightarrow> Inr (is_substring k s)
                                | _ \<Rightarrow> Inl TypeError)"

definition json_subscript :: "json \<Rightarrow> string \<Rightarrow> exc + json" where
  \<comment> \<open>\<^verbatim>\<open>x[k]\<close> for a string key\<close>
  "json_subscript x k = (case x of JDict kvs \<Rightarrow> subscript kvs k | _ \<Rightarrow> Inl TypeError)"

definition current_user_is_superuser :: "'a ext \<Rightarrow> (bool, 'a world_scheme) io" where
  \<comment> \<open>\<^verbatim>\<open>current_user.is_superuser()\<close>\<close>
  "current_user_is_superuser X =
     (\<lambda>w. case current_user w of None \<Rightarrow> (Inl AttributeError, w)
                                 | Some u \<Rightarrow> (Inr (is_superuser X u), w))"









text \<open>
  \<^verbatim>\<open>
  def __add_address_prefix(self, address, prefix):
      if address is None:
          return {}
      else:
          address_dict = dict(('{}_{}'.format(prefix, key), value)
                                for key, value in address.as_dict().items())
      return address_dict

  def serialize(self, instance, include=None):
      exclude = ['password']
      include = ["first_name", "last_name", "created_at", "phone",
                 "current_login_at", "active", "billing_address",
                 "delivery_address", "logged_at", 'is_superuser', "birth_date",
                 "fax", "company", "gender", "id"]
      if g.user.is_anonymous() or instance.is_anonymous():
          return instance.as_dict(include, exclude)
      if g.user.id != instance.id and g.user.is_superuser() is False:
          exclude.append('email')
      else:
          include.append('email')
      response = instance.as_dict(include, exclude)
      if instance.customer:
          response['shop_id'] = instance.customer.shop_id
      response.update(self.__add_address_prefix(instance.billing_address, 'billing'))
      response.update(self.__add_address_prefix(instance.delivery_address, 'delivery'))
      return response
  \<close>
  The caller \<^verbatim>\<open>g.user\<close> is the current user; \<open>None\<close> is the anonymous user, as caller
  and as instance.
\<close>

definition add_address_prefix :: "pydict option \<Rightarrow> string \<Rightarrow> pydict" where
  "add_address_prefix address prefix =
     (case address of
        None \<Rightarrow> []
      | Some d \<Rightarrow> map (\<lambda>(k, v). (prefix @ ''_'' @ k, v)) d)"

definition serialize_include :: "string list" where
  "serialize_include =
     [''first_name'', ''last_name'', ''created_at'', ''phone'', ''current_login_at'',
      ''active'', ''billing_address'', ''delivery_address'', ''logged_at'',
      ''is_superuser'', ''birth_date'', ''fax'', ''company'', ''gender'', ''id'']"

definition ProfileResource_serialize :: "'a ext \<Rightarrow> user option \<Rightarrow> 'a world_scheme \<Rightarrow> pydict" where
  "ProfileResource_serialize X instance w =
     (let exclude = [''password''];
          include = serialize_include
      in case (current_user w, instance) of
           (Some g_user, Some inst) \<Rightarrow>
             (let (include', exclude') =
                    (if uid g_user \<noteq> uid inst \<and> is_superuser X g_user = False
                     then (include, exclude @ [''email''])
                     else (include @ [''email''], exclude));
                  response = instance_as_dict X instance include' exclude';
                  response1 = (case user_customer inst w of
                                 Some c \<Rightarrow> AList.update ''shop_id'' (shop_id c) response
                               | None \<Rightarrow> response);
                  response2 = dict_update response1
                                (add_address_prefix (billing_address X inst w) ''billing'')
              in dict_update response2
                   (add_address_prefix (delivery_address X inst w) ''delivery''))
         | _ \<Rightarrow> instance_as_dict X instance include exclude)"


section \<open>Model resources: addresses, bank accounts, customers\<close>

text \<open>
  \<^verbatim>\<open>AddressResource\<close>, \<^verbatim>\<open>BankAccountResource\<close> and \<^verbatim>\<open>CustomerResource\<close> inherit from
  \<^verbatim>\<open>ModelResource\<close> (\<^verbatim>\<open>core/resources.py\<close>) and work on models built on \<^verbatim>\<open>CRUDMixin\<close>
  (\<^verbatim>\<open>core/models.py\<close>). What they inherit and what they call on their model are the
  fields of a resource: the check of the class's \<^verbatim>\<open>validation\<close> (\<^verbatim>\<open>clean\<close>),
  \<^verbatim>\<open>json.loads\<close>, the inherited \<^verbatim>\<open>get_object\<close> and \<^verbatim>\<open>serialize\<close>, \<^verbatim>\<open>model.create\<close>,
  \<^verbatim>\<open>instance.update\<close>, \<^verbatim>\<open>customer.set_address\<close>, \<^verbatim>\<open>customer.save\<close> and
  \<^verbatim>\<open>instance.check_owner\<close>.
\<close>

record ('i, 'a) resource =
  validation_check :: "json \<Rightarrow> exc + pydict"
  json_loads :: "string \<Rightarrow> exc + json"
  super_get_object :: "int \<Rightarrow> ('i, 'a world_scheme) io"
  super_serialize :: "'i \<Rightarrow> (json, 'a world_scheme) io"
  model_create :: "pydict \<Rightarrow> ('i, 'a world_scheme) io"
  instance_update :: "'i \<Rightarrow> pydict \<Rightarrow> ('i, 'a world_scheme) io"
  set_address :: "customer \<Rightarrow> 'i \<Rightarrow> json \<Rightarrow> (unit, 'a world_scheme) io"
  customer_save :: "customer \<Rightarrow> (unit, 'a world_scheme) io"
  check_owner :: "'i \<Rightarrow> user option \<Rightarrow> bool"

text \<open>
  \<^verbatim>\<open>
  @property
  def _request_data(self):
      try:
          data = request.json or json.loads(request.data)
          return self.clean(data)
      except t.DataError as err:
          raise err
      except:
          abort(http.BAD_REQUEST)
  \<close>
\<close>

definition request_data :: "('i, 'a) resource \<Rightarrow> request \<Rightarrow> exc + pydict" where
  "request_data R req =
     (let data = (if truthy (req_json req) then Inr (req_json req)
                  else json_loads R (req_data req));
          cleaned = (case data of Inl e \<Rightarrow> Inl e | Inr d \<Rightarrow> validation_check R d)
      in case cleaned of
           Inl (DataError err) \<Rightarrow> Inl (DataError err)
         | Inl _ \<Rightarrow> Inl (Abort BAD_REQUEST)
         | Inr d \<Rightarrow> Inr d)"






text \<open>
  \<^verbatim>\<open>
  def post(self):                                   # BankAccountResource
      status = http.CREATED
      data = request.json or abort(http.BAD_REQUEST)
      try:
          data = self.clean(data)
          data['user_id'] = current_user.id
          response = self.serialize(self.model.create(**data))
      except t.DataError as err:
          response, status = err.as_dict(), http.BAD_REQUEST
      return jsonify_status_code(response, status)

  def get_object(self, id):                         # BankAccountResource
      instance = super(BankAccountResource, self).get_object(id)
      if instance.check_owner(current_user) or current_user.is_superuser():
          return instance
      return abort(http.UNAUTHORIZED)
  \<close>
  The class sets \<^verbatim>\<open>decorators = [login_required]\<close>:
  \<^verbatim>\<open>
  def login_required(fn):
      @wraps(fn)
      def wrapper(*args, **kwargs):
          if not current_user.is_authenticated():
              abort(http.UNAUTHORIZED)
          return fn(*args, **kwargs)
      return wrapper
  \<close>
\<close>

definition login_required :: "('r, 'a world_scheme) io \<Rightarrow> ('r, 'a world_scheme) io" where
  "login_required fn =
     (\<lambda>w. if current_user w = None then (Inl (Abort UNAUTHORIZED), w) else fn w)"


definition BankAccountResource_get_object ::
  "'a ext \<Rightarrow> ('i, 'a) resource \<Rightarrow> int \<Rightarrow> ('i, 'a world_scheme) io" where
  "BankAccountResource_get_object X R ident =
     bindM (super_get_object R ident) (\<lambda>instance.
     bindM (readM current_user) (\<lambda>cu.
       if check_owner R instance cu then returnM instance
       else
         bindM (current_user_is_superuser X) (\<lambda>super.
           if super then returnM instance else raiseM (Abort UNAUTHORIZED))))"

text \<open>
  \<^verbatim>\<open>
  def method_wrapper(http_status):
      def method_catcher(meth):
          @wraps(meth)
          def wrapper(*args):
              try:
                  data = request.json or abort(http.BAD_REQUEST)
                  return jsonify_status_code(meth(*args, data=data), http_status)
              except t.DataError as e:
                  return jsonify_status_code(e.as_dict(), http.BAD_REQUEST)
          return wrapper
      return method_catcher
  \<close>
\<close>

definition method_wrapper :: "nat \<Rightarrow> (json \<Rightarrow> (json, 'w) io) \<Rightarrow> request \<Rightarrow> (response, 'w) io" where
  "method_wrapper http_status meth req =
     except_DataError
       (if truthy (req_json req) then
          bindM (meth (req_json req)) (\<lambda>r. returnM (jsonify_status_code r http_status))
        else raiseM (Abort BAD_REQUEST))
       (\<lambda>e. returnM (jsonify_status_code (as_dict e) BAD_REQUEST))"

section \<open>The multilingual overlay: \<^verbatim>\<open>multilingual\<close>\<close>

text \<open>
  \<^verbatim>\<open>
  def _get_locale():
      lang = unicode(get_locale())
      try:
          if '_lang' in request.args:
              lang = unicode(request.args['_lang'])
          elif request.json and '_lang' in request.json:
              lang = unicode(request.json['_lang'])
      except RuntimeError:
          pass
      if lang is None:
          lang = unicode(current_app.conf['BABEL_DEFAULT_LOCALE'])
      return lang
  \<close>
  \<open>babel\<close> is \<^verbatim>\<open>unicode(get_locale())\<close>, \<open>unicode\<close> is Python's conversion of a request
  value to a string, and the request is \<open>None\<close> outside a request context (Flask's
  RuntimeError, which the source passes over).
\<close>

definition request_locale :: "string \<Rightarrow> (json \<Rightarrow> string) \<Rightarrow> request option \<Rightarrow> exc + string" where
  "request_locale babel unicode req =
     (case req of
        None \<Rightarrow> Inr babel
      | Some r \<Rightarrow>
          (case map_of (req_args r) ''_lang'' of
             Some v \<Rightarrow> Inr (unicode v)
           | None \<Rightarrow>
               if truthy (req_json r) then
                 (case json_contains ''_lang'' (req_json r) of
                    Inl e \<Rightarrow> Inl e
                  | Inr present \<Rightarrow>
                      if present then
                        (case json_subscript (req_json r) ''_lang'' of
                           Inl e \<Rightarrow> Inl e
                         | Inr v \<Rightarrow> Inr (unicode v))
                      else Inr babel)
               else Inr babel))"

text \<open>
  The shadow table of a multilingual class holds one row object per saved instance of
  the localized class: its primary key (\<open>None\<close> until the row is saved), the parent's
  id, the locale, and the copied text columns (a column that was never set is NULL).
  \<^verbatim>\<open>
  def getter(self):
      lang = _get_locale()
      instance = localized.query.filter_by(parent_id=self.id, locale=lang).first()
      return instance and getattr(instance, field) or None

  def setter(self, value):
      lang = _get_locale()
      from_db = localized.query.filter_by(parent_id=self.id, locale=lang).first()
      instance = from_db or localized(parent=self, locale=lang)
      setattr(instance, field, value)
      instance.save()
  \<close>
  \<^verbatim>\<open>save\<close> (of \<^verbatim>\<open>CRUDMixin\<close>) adds the object to the database session and commits: a
  new object becomes a new row with the next primary key, a loaded one replaces the row
  with its primary key.
\<close>

record localized =
  row_id :: "nat option"
  parent_id :: int
  row_locale :: string
  columns :: "string \<rightharpoonup> string"

definition query_first :: "int \<Rightarrow> string \<Rightarrow> localized list \<Rightarrow> localized option" where
  \<comment> \<open>\<^verbatim>\<open>localized.query.filter_by(parent_id=p, locale=lang).first()\<close>\<close>
  "query_first p lang tbl = find (\<lambda>r. parent_id r = p \<and> row_locale r = lang) tbl"

definition fresh_id :: "localized list \<Rightarrow> nat" where
  "fresh_id tbl = Suc (fold max (map (\<lambda>r. case row_id r of None \<Rightarrow> 0 | Some k \<Rightarrow> k) tbl) 0)"

definition localized_save :: "localized \<Rightarrow> localized list \<Rightarrow> localized list" where
  "localized_save inst tbl =
     (case row_id inst of
        None \<Rightarrow> tbl @ [inst\<lparr>row_id := Some (fresh_id tbl)\<rparr>]
      | Some k \<Rightarrow> map (\<lambda>r. if row_id r = Some k then inst else r) tbl)"

definition getter ::
  "string \<Rightarrow> (json \<Rightarrow> string) \<Rightarrow> request option \<Rightarrow> string \<Rightarrow> int \<Rightarrow> localized list
   \<Rightarrow> exc + string option" where
  "getter babel unicode req field self_id tbl =
     (case request_locale babel unicode req of
        Inl e \<Rightarrow> Inl e
      | Inr lang \<Rightarrow>
          Inr (case query_first self_id lang tbl of
                 None \<Rightarrow> None
               | Some instance \<Rightarrow>
                   (case columns instance field of
                      None \<Rightarrow> None
                    | Some v \<Rightarrow> if v \<noteq> [] then Some v else None)))"

definition setter ::
  "string \<Rightarrow> (json \<Rightarrow> string) \<Rightarrow> request option \<Rightarrow> string \<Rightarrow> int \<Rightarrow> string
   \<Rightarrow> localized list \<Rightarrow> exc + localized list" where
  "setter babel unicode req field self_id v tbl =
     (case request_locale babel unicode req of
        Inl e \<Rightarrow> Inl e
      | Inr lang \<Rightarrow>
          (let from_db = query_first self_id lang tbl;
               instance = (case from_db of
                             Some r \<Rightarrow> r
                           | None \<Rightarrow> \<lparr>row_id = None, parent_id = self_id, row_locale = lang,
                                       columns = Map.empty\<rparr>)
           in Inr (localized_save (instance\<lparr>columns := (columns instance)(field \<mapsto> v)\<rparr>) tbl)))"

text \<open>
  The class-level expression of the property reads the column as it is stored:
  \<^verbatim>\<open>
  def expression(self):
      lang = _get_locale()
      return db.Query(columns[field]) \
          .filter(localized.parent_id == self.id,
                  localized.locale == lang).as_scalar()
  \<close>
\<close>

definition expression ::
  "string \<Rightarrow> (json \<Rightarrow> string) \<Rightarrow> request option \<Rightarrow> string \<Rightarrow> int \<Rightarrow> localized list
   \<Rightarrow> exc + string option" where
  "expression babel unicode req field self_id tbl =
     (case request_locale babel unicode req of
        Inl e \<Rightarrow> Inl e
      | Inr lang \<Rightarrow>
          Inr (case query_first self_id lang tbl of
                 None \<Rightarrow> None
               | Some instance \<Rightarrow> columns instance field))"

text \<open>
  A write to a virtual attribute: the request it comes with, the field, the parent's id
  and the value. A write whose locale cannot be read raises and leaves the table as it
  is.
\<close>

record attr_write =
  w_request :: "request option"
  w_field :: string
  w_parent :: int
  w_text :: string

definition apply_write :: "string \<Rightarrow> (json \<Rightarrow> string) \<Rightarrow> localized list \<Rightarrow> attr_write \<Rightarrow> localized list" where
  "apply_write babel unicode tbl wr =
     (case setter babel unicode (w_request wr) (w_field wr) (w_parent wr) (w_text wr) tbl of
        Inl e \<Rightarrow> tbl
      | Inr tbl' \<Rightarrow> tbl')"

definition row_key :: "localized \<Rightarrow> int \<times> string" where
  "row_key r = (parent_id r, row_locale r)"

definition saved_rows :: "localized list \<Rightarrow> bool" where
  \<comment> \<open>the table's rows have primary keys, and no two rows share one\<close>
  "saved_rows tbl = (list_all (\<lambda>r. row_id r \<noteq> None) tbl \<and> distinct (map row_id tbl))"

section \<open>Concrete instances\<close>

text \<open>Small worlds and parameters on which the properties below are evaluated.\<close>

definition demo_unicode :: "json \<Rightarrow> string" where
  "demo_unicode j = (case j of JStr s \<Rightarrow> s | _ \<Rightarrow> [])"

text \<open>
  A world with an administrator (role 1), a plain user, the customer of each, one
  anonymous customer (id 30) with two cart rows, and a session that holds the anonymous
  customer's id.
\<close>

definition admin :: user where
  "admin = \<lparr>uid = 1, email = ''root@example.com'', password = ''pw-admin'', active = True,
            first_name = ''Ada'', roles = [1]\<rparr>"

definition alice :: user where
  "alice = \<lparr>uid = 2, email = ''alice@example.com'', password = ''pw-alice'', active = True,
            first_name = ''Alice'', roles = []\<rparr>"

definition demo_world :: world where
  "demo_world =
     \<lparr>session = [''id'' \<mapsto> JStr ''s-1'', ''customer_id'' \<mapsto> JInt 30],
      current_user = None,
      users = [admin, alice],
      role_table = [\<lparr>role_id = 1, role_name = ''admin''\<rparr>, \<lparr>role_id = 2, role_name = ''editor''\<rparr>],
      customers = [\<lparr>customer_id = 10, user_id = Some 1, shop_id = JInt 1\<rparr>,
                   \<lparr>customer_id = 20, user_id = Some 2, shop_id = JInt 1\<rparr>,
                   \<lparr>customer_id = 30, user_id = None, shop_id = JInt 1\<rparr>],
      carts = [\<lparr>cart_id = 1, cart_customer_id = 30, cart_columns = []\<rparr>,
               \<lparr>cart_id = 2, cart_customer_id = 10, cart_columns = []\<rparr>,
               \<lparr>cart_id = 3, cart_customer_id = 30, cart_columns = []\<rparr>]\<rparr>"

definition user_columns :: "user \<Rightarrow> pydict" where
  "user_columns u =
     [(''id'', JInt (uid u)), (''email'', JStr (email u)), (''password'', JStr (password u)),
      (''active'', JBool (active u)), (''first_name'', JStr (first_name u))]"

definition demo_as_dict :: "user option \<Rightarrow> string list \<Rightarrow> string list \<Rightarrow> pydict" where
  "demo_as_dict instance incl excl =
     (case instance of
        None \<Rightarrow> []
      | Some u \<Rightarrow> filter (\<lambda>(k, v). k \<notin> set excl) (user_columns u))"

text \<open>
  Parameters in the manner of the libraries: \<^verbatim>\<open>login_user\<close> writes the user's id to the
  session entry \<^verbatim>\<open>user_id\<close> and makes the user current, \<^verbatim>\<open>logout_user\<close> removes that entry
  and makes the anonymous user current, a password verifies when it equals the stored
  one, \<^verbatim>\<open>Cart.for_customer\<close> selects the rows of the customer, and a superuser is a user
  with role 1.
\<close>

definition demo_ext :: "unit ext" where
  "demo_ext =
     \<lparr>session_validation =
        (\<lambda>j. case j of JDict kvs \<Rightarrow> Inr kvs | _ \<Rightarrow> Inl (DataError (Msg ''value is not dict''))),
      requires_confirmation = (\<lambda>u. False),
      verify_password = (\<lambda>pw stored. pw = JStr stored),
      login_user = (\<lambda>u w. w\<lparr>session := (session w)(''user_id'' \<mapsto> JInt (uid u)),
                               current_user := Some u\<rparr>),
      logout_user = (\<lambda>w. w\<lparr>session := (session w)(''user_id'' := None), current_user := None\<rparr>),
      identity_changed_send = (\<lambda>w. w),
      for_customer = (\<lambda>c r. cart_customer_id r = customer_id c),
      is_superuser = (\<lambda>u. 1 \<in> set (roles u)),
      locale_language = ''en'',
      is_unique = (\<lambda>e w. find_user e w = None),
      register_user = (\<lambda>e pw w. w),
      reset_password_token_status = (\<lambda>t w. (False, True, None)),
      confirm_email_token_status = (\<lambda>t w. (False, True, None)),
      confirm_user = (\<lambda>u w. w),
      user_save = (\<lambda>u w. w),
      user_update = (\<lambda>u d. returnM u),
      generate_reset_password_token = (\<lambda>u. ''t''),
      send_email = (\<lambda>subject recipient template params w. w),
      reset_password_instructions_sent = (\<lambda>u t w. w),
      url_root = ''http://localhost/'',
      null_fields_filter = (\<lambda>fields j. j),
      instance_as_dict = demo_as_dict,
      billing_address = (\<lambda>u w. Some [(''city'', JStr ''Kyiv'')]),
      delivery_address = (\<lambda>u w. None)\<rparr>"

text \<open>
  The declarative schema of \<^verbatim>\<open>BankAccountResource\<close>,
  \<^verbatim>\<open>t.Dict({'bank_name': t.String, 'iban': t.String, 'swift': t.String}).ignore_extra('*')\<close>,
  as trafaret checks it: the value is a dictionary, each of the three keys is required
  and holds a non-blank string, other keys are dropped.
\<close>

definition check_required_string :: "pydict \<Rightarrow> string \<Rightarrow> (string \<times> data_error) list" where
  "check_required_string kvs k =
     (case map_of kvs k of
        None \<Rightarrow> [(k, Msg ''is required'')]
      | Some (JStr s) \<Rightarrow> if s = [] then [(k, Msg ''blank value is not allowed'')] else []
      | Some _ \<Rightarrow> [(k, Msg ''value is not a string'')])"

definition BankAccountResource_validation :: "json \<Rightarrow> exc + pydict" where
  "BankAccountResource_validation j =
     (case j of
        JDict kvs \<Rightarrow>
          (let names = [''bank_name'', ''iban'', ''swift''];
               errors = concat (map (check_required_string kvs) names)
           in if errors = [] then Inr (filter (\<lambda>(k, v). k \<in> set names) kvs)
              else Inl (DataError (Fields errors)))
      | _ \<Rightarrow> Inl (DataError (Msg ''value is not dict'')))"

text \<open>
  A bank account row and a resource over a world whose extension is the table of bank
  accounts.
\<close>

record bank_account =
  account_id :: int
  account_user_id :: int
  account_columns :: pydict

definition demo_bank_resource :: "(bank_account, unit) resource" where
  "demo_bank_resource =
     \<lparr>validation_check = BankAccountResource_validation,
      json_loads = (\<lambda>s. Inl ValueError),
      super_get_object =
        (\<lambda>ident. if ident = 5
                  then returnM \<lparr>account_id = 5, account_user_id = 2, account_columns = []\<rparr>
                  else raiseM (Abort NOT_FOUND)),
      super_serialize = (\<lambda>a. returnM (JDict ((''id'', JInt (account_id a)) # account_columns a))),
      model_create =
        (\<lambda>d. returnM \<lparr>account_id = 6,
                        account_user_id = (case map_of d ''user_id'' of Some (JInt n) \<Rightarrow> n | _ \<Rightarrow> 0),
                        account_columns = d\<rparr>),
      instance_update = (\<lambda>a d. returnM (a\<lparr>account_columns := d\<rparr>)),
      set_address = (\<lambda>c a t. returnM ()),
      customer_save = (\<lambda>c. returnM ()),
      check_owner = (\<lambda>a cu. case cu of None \<Rightarrow> False | Some u \<Rightarrow> account_user_id a = uid u)\<rparr>"

definition logged_in_world :: world where
  \<comment> \<open>\<open>demo_world\<close> after alice has logged in\<close>
  "logged_in_world =
     demo_world\<lparr>session := (session demo_world)(''user_id'' \<mapsto> JInt 2),
                current_user := Some alice\<rparr>"

definition alice_credentials :: pydict where
  "alice_credentials = [(''email'', JStr ''alice@example.com''), (''password'', JStr ''pw-alice'')]"




section \<open>Properties\<close>

subsection \<open>Resource registration\<close>

text \<open>
  C7. A resource registered through \<^verbatim>\<open>api_resource\<close> with endpoint \<open>E\<close> and a primary-key
  definition whose first key is \<open>pk\<close> adds exactly two rules to the blueprint: the
  collection URL \<^verbatim>\<open>/E/\<close> with exactly the methods GET and POST, and the item URL with
  exactly the methods GET, PUT and DELETE. The item URL is the collection URL followed
  by \<^verbatim>\<open><pk>\<close> when the key's type is \<^verbatim>\<open>None\<close> and by \<^verbatim>\<open><type:pk>\<close> when a type (whose
  name, as every Python type name, is not empty) is given. Both rules dispatch to the
  same view, made from the resource class for the endpoint.
\<close>

theorem api_resource_rules:
  assumes "ty \<noteq> Some []"
  shows "api_resource bp E ((pk, ty) # more_keys) cls =
           Inr (bp @
             [\<lparr>rule = ''/'' @ E @ ''/'', view_func = as_view cls E,
               methods = [''GET'', ''POST'']\<rparr>,
              \<lparr>rule = (case ty of None \<Rightarrow> ''/'' @ E @ ''/'' @ ''<'' @ pk @ ''>''
                               | Some n \<Rightarrow> ''/'' @ E @ ''/'' @ ''<'' @ n @ '':'' @ pk @ ''>''),
               view_func = as_view cls E,
               methods = [''GET'', ''PUT'', ''DELETE'']\<rparr>])"
  using assms
  by (cases ty) (simp_all add: api_resource_def add_url_rule_def Let_def)

theorem api_resource_rules_witness:
  "Some ''int'' \<noteq> Some [] \<and>
   api_resource [] ''addresses'' [(''id'', Some ''int'')] (0::nat) =
     Inr [\<lparr>rule = ''/addresses/'', view_func = as_view 0 ''addresses'',
            methods = [''GET'', ''POST'']\<rparr>,
          \<lparr>rule = ''/addresses/<int:id>'', view_func = as_view 0 ''addresses'',
            methods = [''GET'', ''PUT'', ''DELETE'']\<rparr>]"
  using api_resource_rules [of "Some ''int''" "[]" "''addresses''" "''id''" "[]" "0::nat"]
  by simp

lemma api_resource_plain_segment:
  "api_resource [] ''sessions'' [(''id'', None)] (0::nat) =
     Inr [\<lparr>rule = ''/sessions/'', view_func = as_view 0 ''sessions'',
            methods = [''GET'', ''POST'']\<rparr>,
          \<lparr>rule = ''/sessions/<id>'', view_func = as_view 0 ''sessions'',
            methods = [''GET'', ''PUT'', ''DELETE'']\<rparr>]"
  by (simp add: api_resource_def add_url_rule_def Let_def)

lemma api_resource_empty_pk_def:
  "api_resource bp E [] cls = Inl IndexError"
  by (simp add: api_resource_def)

subsection \<open>Password comparison\<close>

text \<open>
  C8. \<^verbatim>\<open>_cmp_pwds\<close> is not total: on a mapping that holds \<^verbatim>\<open>confirmation\<close> and no
  \<^verbatim>\<open>password\<close> the second branch reads \<^verbatim>\<open>value['password']\<close> and raises KeyError.
\<close>

theorem cmp_pwds_confirmation_only:
  "cmp_pwds encrypt_password [(''confirmation'', JStr ''secret1'')] = Inl (KeyError ''password'')"
  by (simp add: cmp_pwds_def subscript_def)

lemma cmp_pwds_password_only:
  "cmp_pwds encrypt_password [(''password'', JStr ''secret1'')] = Inl (KeyError ''confirmation'')"
  by (simp add: cmp_pwds_def subscript_def py_len_def)

lemma cmp_pwds_password_not_sized:
  "cmp_pwds encrypt_password [(''password'', JNull), (''confirmation'', JNull)] = Inl TypeError"
  by (simp add: cmp_pwds_def subscript_def py_len_def)

lemma cmp_pwds_both_strings:
  "cmp_pwds encrypt_password [(''password'', JStr p), (''confirmation'', JStr c)] =
     Inr (if length p < 6
          then [(''password'', Err (Msg ''Passwords should be more than 6 symbols length''))]
          else if p \<noteq> c then [(''confirmation'', Err (Msg ''Passwords doesn't match''))]
          else [(''password'', Val (encrypt_password (JStr p)))])"
  by (simp add: cmp_pwds_def subscript_def py_len_def)

lemma cmp_pwds_neither:
  "map_of v ''password'' = None \<Longrightarrow> map_of v ''confirmation'' = None \<Longrightarrow>
   cmp_pwds encrypt_password v = Inr (map (\<lambda>(k, x). (k, Val x)) v)"
  by (simp add: cmp_pwds_def)

subsection \<open>The multilingual overlay\<close>

lemma fold_max_ge: "m \<le> fold max xs (m::nat)"
  by (induction xs arbitrary: m) (auto intro: order_trans[OF max.cobounded2])

lemma fold_max_mem: "x \<in> set xs \<Longrightarrow> x \<le> fold max xs (m::nat)"
proof (induction xs arbitrary: m)
  case Nil then show ?case by simp
next
  case (Cons a xs)
  show ?case
  proof (cases "x = a")
    case True
    have "a \<le> max a m" by simp
    also have "\<dots> \<le> fold max xs (max a m)" by (rule fold_max_ge)
    finally show ?thesis using True by simp
  next
    case False
    with Cons show ?thesis by simp
  qed
qed

lemma fresh_id_new: "r \<in> set tbl \<Longrightarrow> row_id r \<noteq> Some (fresh_id tbl)"
proof
  assume r: "r \<in> set tbl" and eq: "row_id r = Some (fresh_id tbl)"
  let ?f = "\<lambda>r. case row_id r of None \<Rightarrow> 0 | Some k \<Rightarrow> k"
  have "?f r \<in> set (map ?f tbl)" using r by simp
  then have "?f r \<le> fold max (map ?f tbl) 0" by (rule fold_max_mem)
  then show False using eq by (simp add: fresh_id_def)
qed

lemma query_first_None:
  "query_first p lang tbl = None \<Longrightarrow> (p, lang) \<notin> set (map row_key tbl)"
  by (auto simp: query_first_def find_None_iff row_key_def)

lemma query_first_Some:
  "query_first p lang tbl = Some r \<Longrightarrow> r \<in> set tbl \<and> parent_id r = p \<and> row_locale r = lang"
  by (auto simp: query_first_def find_Some_iff)



lemma saved_rows_inj:
  "saved_rows tbl \<Longrightarrow> x \<in> set tbl \<Longrightarrow> r \<in> set tbl \<Longrightarrow> row_id x = row_id r \<Longrightarrow> x = r"
  unfolding saved_rows_def distinct_map by (blast dest: inj_onD)

lemma saved_rows_Some: "saved_rows tbl \<Longrightarrow> r \<in> set tbl \<Longrightarrow> \<exists>k. row_id r = Some k"
  by (simp add: saved_rows_def list_all_iff)

lemma save_existing_keys:
  assumes u: "\<And>x. x \<in> set tbl \<Longrightarrow> row_id x = Some k \<Longrightarrow> x = r" and k: "row_id r = Some k"
  shows "map row_key (localized_save (r\<lparr>columns := c\<rparr>) tbl) = map row_key tbl"
proof -
  have "\<And>x. x \<in> set tbl \<Longrightarrow> row_key (if row_id x = Some k then r\<lparr>columns := c\<rparr> else x) = row_key x"
    using u by (simp add: row_key_def)
  then show ?thesis using k
    by (simp add: localized_save_def)
qed

lemma save_existing_ids:
  assumes "row_id r = Some k"
  shows "map row_id (localized_save (r\<lparr>columns := c\<rparr>) tbl) = map row_id tbl"
  using assms by (simp add: localized_save_def)

lemma saved_rows_map_id:
  assumes a: "saved_rows tbl" and m: "map row_id tbl' = map row_id tbl"
  shows "saved_rows tbl'"
proof -
  have "list_all (\<lambda>r. row_id r \<noteq> None) tbl' = list_all (\<lambda>x. x \<noteq> None) (map row_id tbl')"
    by (simp add: list_all_iff)
  also have "\<dots> = list_all (\<lambda>r. row_id r \<noteq> None) tbl"
    unfolding m by (simp add: list_all_iff)
  finally show ?thesis using a m by (simp add: saved_rows_def)
qed

lemma setter_new_row:
  assumes "request_locale babel unicode req = Inr lang" "query_first p lang tbl = None"
  shows "setter babel unicode req field p v tbl =
           Inr (tbl @ [\<lparr>row_id = Some (fresh_id tbl), parent_id = p, row_locale = lang,
                          columns = [field \<mapsto> v]\<rparr>])"
  using assms by (simp add: setter_def localized_save_def)

lemma setter_existing_row:
  assumes "request_locale babel unicode req = Inr lang" "query_first p lang tbl = Some r"
  shows "setter babel unicode req field p v tbl =
           Inr (localized_save (r\<lparr>columns := (columns r)(field \<mapsto> v)\<rparr>) tbl)"
  using assms by (simp add: setter_def)

lemma setter_preserves:
  assumes s: "saved_rows tbl" and d: "distinct (map row_key tbl)"
      and t: "setter babel unicode req field p v tbl = Inr tbl'"
  shows "saved_rows tbl' \<and> distinct (map row_key tbl')"
proof -
  from t obtain lang where L: "request_locale babel unicode req = Inr lang"
    by (cases "request_locale babel unicode req") (simp_all add: setter_def)
  show ?thesis
  proof (cases "query_first p lang tbl")
    case None
    have t': "tbl' = tbl @ [\<lparr>row_id = Some (fresh_id tbl), parent_id = p, row_locale = lang,
                          columns = [field \<mapsto> v]\<rparr>]"
      using t setter_new_row[OF L None] by simp
    have "\<And>r. r \<in> set tbl \<Longrightarrow> row_id r \<noteq> Some (fresh_id tbl)" by (rule fresh_id_new)
    then have f: "Some (fresh_id tbl) \<notin> set (map row_id tbl)" by (simp add: image_iff) metis
    have n: "(p, lang) \<notin> set (map row_key tbl)" using None by (rule query_first_None)
    have "saved_rows tbl'" using s f unfolding t' by (simp add: saved_rows_def)
    moreover have "distinct (map row_key tbl')" using d n unfolding t' by (simp add: row_key_def)
    ultimately show ?thesis by simp
  next
    case (Some r)
    then have r: "r \<in> set tbl" using query_first_Some by blast
    then obtain k where k: "row_id r = Some k" using saved_rows_Some s by blast
    have t': "tbl' = localized_save (r\<lparr>columns := (columns r)(field \<mapsto> v)\<rparr>) tbl"
      using t setter_existing_row[OF L Some] by simp
    have u: "\<And>x. x \<in> set tbl \<Longrightarrow> row_id x = Some k \<Longrightarrow> x = r"
      using saved_rows_inj[OF s _ r] k by simp
    have "map row_key tbl' = map row_key tbl" unfolding t' by (rule save_existing_keys[OF u k])
    moreover have "map row_id tbl' = map row_id tbl" unfolding t' by (rule save_existing_ids[OF k])
    ultimately show ?thesis using s d saved_rows_map_id by simp
  qed
qed

lemma apply_write_preserves:
  assumes "saved_rows tbl" "distinct (map row_key tbl)"
  shows "saved_rows (apply_write babel unicode tbl wr) \<and>
         distinct (map row_key (apply_write babel unicode tbl wr))"
proof (cases "setter babel unicode (w_request wr) (w_field wr) (w_parent wr) (w_text wr) tbl")
  case (Inl e)
  then show ?thesis using assms by (simp add: apply_write_def)
next
  case (Inr tbl')
  then show ?thesis using setter_preserves[OF assms Inr] by (simp add: apply_write_def)
qed

lemma writes_preserve:
  "saved_rows tbl \<Longrightarrow> distinct (map row_key tbl) \<Longrightarrow>
   saved_rows (foldl (apply_write babel unicode) tbl ws) \<and>
   distinct (map row_key (foldl (apply_write babel unicode) tbl ws))"
proof (induction ws arbitrary: tbl)
  case Nil
  then show ?case by simp
next
  case (Cons wr ws)
  have "saved_rows (apply_write babel unicode tbl wr) \<and>
        distinct (map row_key (apply_write babel unicode tbl wr))"
    using Cons.prems by (rule apply_write_preserves)
  then show ?case using Cons.IH by simp
qed

lemma find_append_last:
  "find P xs = None \<Longrightarrow> P y \<Longrightarrow> find P (xs @ [y]) = Some y"
  by (induction xs) (auto split: if_splits)

lemma find_map_replace:
  assumes "find P tbl = Some r" "P r'" "\<And>x. x \<in> set tbl \<Longrightarrow> Q x \<Longrightarrow> x = r" "Q r"
  shows "find P (map (\<lambda>x. if Q x then r' else x) tbl) = Some r'"
  using assms
proof (induction tbl)
  case Nil
  then show ?case by simp
next
  case (Cons x xs)
  show ?case
  proof (cases "P x")
    case True
    then have "x = r" using Cons.prems(1) by simp
    then show ?thesis using Cons.prems(2,4) by simp
  next
    case False
    then have f: "find P xs = Some r" using Cons.prems(1) by simp
    have "\<not> Q x"
    proof
      assume "Q x"
      then have "x = r" using Cons.prems(3) by simp
      moreover have "P r" using f by (auto simp: find_Some_iff)
      ultimately show False using False by simp
    qed
    moreover have "find P (map (\<lambda>x. if Q x then r' else x) xs) = Some r'"
      using Cons.IH[OF f Cons.prems(2) _ Cons.prems(4)] Cons.prems(3) by simp
    ultimately show ?thesis using False by simp
  qed
qed

lemma query_first_after_setter:
  assumes s: "saved_rows tbl"
      and L: "request_locale babel unicode req = Inr lang"
      and t: "setter babel unicode req field p v tbl = Inr tbl'"
  shows "\<exists>r. query_first p lang tbl' = Some r \<and> columns r field = Some v"
proof (cases "query_first p lang tbl")
  case None
  have t': "tbl' = tbl @ [\<lparr>row_id = Some (fresh_id tbl), parent_id = p, row_locale = lang,
                        columns = [field \<mapsto> v]\<rparr>]"
    using t setter_new_row[OF L None] by simp
  show ?thesis unfolding t' query_first_def
    using None by (simp add: query_first_def find_append_last)
next
  case (Some r)
  then have r: "r \<in> set tbl" and key: "parent_id r = p \<and> row_locale r = lang"
    using query_first_Some by blast+
  obtain k where k: "row_id r = Some k" using saved_rows_Some s r by blast
  let ?r' = "r\<lparr>columns := (columns r)(field \<mapsto> v)\<rparr>"
  have t': "tbl' = map (\<lambda>x. if row_id x = Some k then ?r' else x) tbl"
    using t setter_existing_row[OF L Some] k by (simp add: localized_save_def)
  have u: "\<And>x. x \<in> set tbl \<Longrightarrow> row_id x = Some k \<Longrightarrow> x = r"
    using saved_rows_inj[OF s _ r] k by simp
  have "find (\<lambda>r. parent_id r = p \<and> row_locale r = lang) tbl' = Some ?r'"
    unfolding t'
    by (rule find_map_replace[where r = r]) (use Some key u k in \<open>simp_all add: query_first_def\<close>)
  then show ?thesis by (simp add: query_first_def)
qed

lemma getter_after_setter:
  assumes "saved_rows tbl"
      and "request_locale babel unicode req = Inr lang"
      and "setter babel unicode req field p v tbl = Inr tbl'"
  shows "getter babel unicode req field p tbl' = Inr (if v \<noteq> [] then Some v else None)"
proof -
  obtain r where "query_first p lang tbl' = Some r" "columns r field = Some v"
    using query_first_after_setter[OF assms] by blast
  then show ?thesis using assms(2) by (simp add: getter_def)
qed

lemma expression_after_setter:
  assumes "saved_rows tbl"
      and "request_locale babel unicode req = Inr lang"
      and "setter babel unicode req field p v tbl = Inr tbl'"
  shows "expression babel unicode req field p tbl' = Inr (Some v)"
proof -
  obtain r where "query_first p lang tbl' = Some r" "columns r field = Some v"
    using query_first_after_setter[OF assms] by blast
  then show ?thesis using assms(2) by (simp add: expression_def)
qed

lemma setter_returns:
  "request_locale babel unicode req = Inr lang \<Longrightarrow>
   \<exists>tbl'. setter babel unicode req field p v tbl = Inr tbl'"
  by (simp add: setter_def Let_def)

text \<open>
  C3. Setting a virtual attribute and reading it back in the same locale returns the
  value that was set only when the value is not the empty string: the getter's
  \<^verbatim>\<open>instance and getattr(instance, field) or None\<close> turns the stored empty string into
  \<^verbatim>\<open>None\<close>, while the class-level expression of the same property reads the stored
  empty string. Here the attribute \<^verbatim>\<open>name\<close> of the parent with id 1 is set to the empty
  string on an empty shadow table, outside a request (the locale is Babel's).
\<close>

theorem getter_after_setter_empty_string:
  "setter babel unicode None ''name'' 1 [] [] =
     Inr [\<lparr>row_id = Some 1, parent_id = 1, row_locale = babel, columns = [''name'' \<mapsto> []]\<rparr>] \<and>
   getter babel unicode None ''name'' 1
     [\<lparr>row_id = Some 1, parent_id = 1, row_locale = babel, columns = [''name'' \<mapsto> []]\<rparr>] =
     Inr None \<and>
   expression babel unicode None ''name'' 1
     [\<lparr>row_id = Some 1, parent_id = 1, row_locale = babel, columns = [''name'' \<mapsto> []]\<rparr>] =
     Inr (Some [])"
  by (simp add: setter_def getter_def expression_def request_locale_def query_first_def
        localized_save_def fresh_id_def)

text \<open>
  C4. From a shadow table whose rows are saved (each has its own primary key) and that
  holds at most one row per (parent, locale), every sequence of writes to localized
  virtual attributes leads to a table that holds at most one row per (parent, locale).
  A write in locale \<open>lang\<close> for parent \<open>p\<close> appends one new row when the table has no
  row for \<open>(p, lang)\<close>, and otherwise replaces the existing row by itself with the
  field set, adding none.
\<close>

theorem shadow_rows_unique:
  assumes "saved_rows tbl" and "distinct (map row_key tbl)"
  shows "distinct (map row_key (foldl (apply_write babel unicode) tbl ws)) \<and>
         (request_locale babel unicode req = Inr lang \<longrightarrow>
            (case query_first p lang tbl of
               None \<Rightarrow>
                 setter babel unicode req field p v tbl =
                   Inr (tbl @ [\<lparr>row_id = Some (fresh_id tbl), parent_id = p, row_locale = lang,
                                  columns = [field \<mapsto> v]\<rparr>])
             | Some r \<Rightarrow>
                 setter babel unicode req field p v tbl =
                   Inr (map (\<lambda>x. if row_id x = row_id r
                                   then r\<lparr>columns := (columns r)(field \<mapsto> v)\<rparr> else x) tbl)))"
proof -
  have a: "distinct (map row_key (foldl (apply_write babel unicode) tbl ws))"
    using writes_preserve[OF assms] by simp
  have b: "request_locale babel unicode req = Inr lang \<Longrightarrow> query_first p lang tbl = None \<Longrightarrow>
           setter babel unicode req field p v tbl =
             Inr (tbl @ [\<lparr>row_id = Some (fresh_id tbl), parent_id = p, row_locale = lang,
                            columns = [field \<mapsto> v]\<rparr>])"
    by (rule setter_new_row)
  have c: "setter babel unicode req field p v tbl =
             Inr (map (\<lambda>x. if row_id x = row_id r
                             then r\<lparr>columns := (columns r)(field \<mapsto> v)\<rparr> else x) tbl)"
    if L: "request_locale babel unicode req = Inr lang" and q: "query_first p lang tbl = Some r" for r
  proof -
    have "r \<in> set tbl" using q query_first_Some by blast
    then obtain k where "row_id r = Some k" using saved_rows_Some assms(1) by blast
    then show ?thesis using setter_existing_row[OF L q] by (simp add: localized_save_def)
  qed
  show ?thesis using a b c by (simp split: option.split)
qed


theorem shadow_rows_unique_witness:
  "saved_rows [] \<and> distinct (map row_key []) \<and>
   distinct (map row_key (foldl (apply_write ''en'' demo_unicode) []
      [\<lparr>w_request = None, w_field = ''name'', w_parent = 1, w_text = ''Hat''\<rparr>,
       \<lparr>w_request = None, w_field = ''name'', w_parent = 1, w_text = ''Cap''\<rparr>])) \<and>
   request_locale ''en'' demo_unicode None = Inr ''en'' \<and>
   setter ''en'' demo_unicode None ''name'' 1 ''Hat'' [] =
     Inr [\<lparr>row_id = Some (fresh_id []), parent_id = 1, row_locale = ''en'',
            columns = [''name'' \<mapsto> ''Hat'']\<rparr>]"
  using shadow_rows_unique [where tbl = "[]" and babel = "''en''" and unicode = demo_unicode
      and ws = "[\<lparr>w_request = None, w_field = ''name'', w_parent = 1, w_text = ''Hat''\<rparr>,
        \<lparr>w_request = None, w_field = ''name'', w_parent = 1, w_text = ''Cap''\<rparr>]"
      and req = None and lang = "''en''" and p = 1 and field = "''name''" and v = "''Hat''"]
  by (simp add: saved_rows_def request_locale_def query_first_def)

lemma two_writes_one_row:
  "foldl (apply_write ''en'' demo_unicode) []
      [\<lparr>w_request = None, w_field = ''name'', w_parent = 1, w_text = ''Hat''\<rparr>,
       \<lparr>w_request = None, w_field = ''name'', w_parent = 1, w_text = ''Cap''\<rparr>] =
   [\<lparr>row_id = Some 1, parent_id = 1, row_locale = ''en'', columns = [''name'' \<mapsto> ''Cap'']\<rparr>]"
  by (simp add: apply_write_def setter_def request_locale_def query_first_def
        localized_save_def fresh_id_def)

subsection \<open>Computations\<close>

lemma bindM_simps:
  "bindM (returnM x) f w = f x w"
  "bindM (raiseM e) f w = (Inl e, w)"
  "bindM (readM g) f w = f (g w) w"
  "bindM (modifyM h) k w = k () (h w)"
  "bindM (liftE (Inr x)) f w = f x w"
  "bindM (liftE (Inl e)) f w = (Inl e, w)"
  by (simp_all add: bindM_def returnM_def raiseM_def readM_def modifyM_def liftE_def)

lemma bindM_result:
  "m w = (Inr x, w') \<Longrightarrow> bindM m f w = f x w'"
  "m w = (Inl e, w') \<Longrightarrow> bindM m f w = (Inl e, w')"
  by (simp_all add: bindM_def)

subsection \<open>Bank accounts\<close>

lemma current_user_is_superuser_Some:
  "current_user w = Some u \<Longrightarrow> current_user_is_superuser X w = (Inr (is_superuser X u), w)"
  by (simp add: current_user_is_superuser_def)

text \<open>
  C9. \<^verbatim>\<open>BankAccountResource.get_object\<close>, for a logged-in caller (the class runs under
  \<^verbatim>\<open>login_required\<close>) and an id for which the inherited \<^verbatim>\<open>get_object\<close> finds an
  instance, returns that instance if and only if \<^verbatim>\<open>check_owner\<close> holds for the caller or
  the caller is a superuser; for every other caller it aborts with 401 UNAUTHORIZED and
  returns no instance.
\<close>

theorem BankAccountResource_get_object_owner_or_superuser:
  assumes "super_get_object R ident w = (Inr inst, w')"
      and "current_user w' = Some u"
  shows "BankAccountResource_get_object X R ident w =
           (if check_owner R inst (Some u) \<or> is_superuser X u
            then (Inr inst, w') else (Inl (Abort UNAUTHORIZED), w'))"
  using assms
  by (simp add: BankAccountResource_get_object_def bindM_result bindM_simps
        current_user_is_superuser_Some returnM_def raiseM_def)

lemma BankAccountResource_get_object_missing:
  "super_get_object R ident w = (Inl e, w') \<Longrightarrow>
   BankAccountResource_get_object X R ident w = (Inl e, w')"
  by (simp add: BankAccountResource_get_object_def bindM_result)

lemma login_required_anonymous:
  "current_user w = None \<Longrightarrow> login_required fn w = (Inl (Abort UNAUTHORIZED), w)"
  by (simp add: login_required_def)

theorem BankAccountResource_get_object_witness:
  "super_get_object demo_bank_resource 5 (demo_world\<lparr>current_user := Some admin\<rparr>) =
     (Inr \<lparr>account_id = 5, account_user_id = 2, account_columns = []\<rparr>,
      demo_world\<lparr>current_user := Some admin\<rparr>) \<and>
   current_user (demo_world\<lparr>current_user := Some admin\<rparr>) = Some admin \<and>
   BankAccountResource_get_object demo_ext demo_bank_resource 5
       (demo_world\<lparr>current_user := Some admin\<rparr>) =
     (Inr \<lparr>account_id = 5, account_user_id = 2, account_columns = []\<rparr>,
      demo_world\<lparr>current_user := Some admin\<rparr>)"
  using BankAccountResource_get_object_owner_or_superuser [where R = demo_bank_resource and ident = 5
             and w = "demo_world\<lparr>current_user := Some admin\<rparr>"
             and w' = "demo_world\<lparr>current_user := Some admin\<rparr>"
             and inst = "\<lparr>account_id = 5, account_user_id = 2, account_columns = []\<rparr>"
             and u = admin and X = demo_ext]
  by (simp add: demo_bank_resource_def returnM_def demo_ext_def admin_def)

lemma BankAccountResource_get_object_stranger:
  "BankAccountResource_get_object demo_ext demo_bank_resource 5
       (demo_world\<lparr>current_user := Some (alice\<lparr>uid := 3\<rparr>)\<rparr>) =
     (Inl (Abort UNAUTHORIZED), demo_world\<lparr>current_user := Some (alice\<lparr>uid := 3\<rparr>)\<rparr>)"
  by (simp add: BankAccountResource_get_object_def bindM_def readM_def raiseM_def returnM_def
        current_user_is_superuser_def demo_bank_resource_def demo_ext_def alice_def)

subsection \<open>Serialization of a profile\<close>

lemma dict_keys_update: "dict_keys (AList.update k v d) = insert k (dict_keys d)"
  by (simp add: dict_keys_def AList.dom_update)

lemma dict_keys_dict_update: "dict_keys (dict_update d other) = dict_keys d \<union> dict_keys other"
proof -
  have "\<And>d. dict_keys (foldl (\<lambda>acc (k, v). AList.update k v acc) d other)
             = dict_keys d \<union> dict_keys other"
  proof (induction other)
    case Nil
    show ?case by (simp add: dict_keys_def)
  next
    case (Cons kv other)
    obtain k v where kv: "kv = (k, v)" by (cases kv)
    have "dict_keys (foldl (\<lambda>acc (k, v). AList.update k v acc) (AList.update k v d) other)
            = dict_keys (AList.update k v d) \<union> dict_keys other"
      by (rule Cons.IH)
    then show ?case unfolding kv by (simp add: dict_keys_update) (auto simp: dict_keys_def)
  qed
  then show ?thesis by (simp add: dict_update_def)
qed

lemma dict_keys_add_address_prefix:
  "k \<in> dict_keys (add_address_prefix address prefix) \<Longrightarrow> \<exists>k'. k = prefix @ ''_'' @ k'"
  by (cases address) (auto simp: add_address_prefix_def dict_keys_def)

lemma billing_not_password: "''password'' \<notin> dict_keys (add_address_prefix a ''billing'')"
  using dict_keys_add_address_prefix[of "''password''" a "''billing''"] by auto

lemma delivery_not_password: "''password'' \<notin> dict_keys (add_address_prefix a ''delivery'')"
  using dict_keys_add_address_prefix[of "''password''" a "''delivery''"] by auto

lemma billing_not_email: "''email'' \<notin> dict_keys (add_address_prefix a ''billing'')"
  using dict_keys_add_address_prefix[of "''email''" a "''billing''"] by auto

lemma delivery_not_email: "''email'' \<notin> dict_keys (add_address_prefix a ''delivery'')"
  using dict_keys_add_address_prefix[of "''email''" a "''delivery''"] by auto

lemma serialize_keys:
  assumes "current_user w = Some g_user"
  shows "k \<in> dict_keys (ProfileResource_serialize X (Some inst) w) \<longleftrightarrow>
          k \<in> dict_keys (instance_as_dict X (Some inst)
                 (if uid g_user \<noteq> uid inst \<and> is_superuser X g_user = False
                  then serialize_include else serialize_include @ [''email''])
                 (if uid g_user \<noteq> uid inst \<and> is_superuser X g_user = False
                  then [''password'', ''email''] else [''password'']))
          \<or> (k = ''shop_id'' \<and> user_customer inst w \<noteq> None)
          \<or> k \<in> dict_keys (add_address_prefix (billing_address X inst w) ''billing'')
          \<or> k \<in> dict_keys (add_address_prefix (delivery_address X inst w) ''delivery'')"
  using assms
  by (cases "user_customer inst w")
     (auto simp: ProfileResource_serialize_def Let_def dict_keys_dict_update dict_keys_update)

lemma serialize_anonymous:
  "current_user w = None \<or> target = None \<Longrightarrow>
   ProfileResource_serialize X target w =
     instance_as_dict X target serialize_include [''password'']"
  by (auto simp: ProfileResource_serialize_def Let_def split: option.splits)

text \<open>
  C5. Let \<^verbatim>\<open>as_dict\<close> of a user instance leave out every excluded field and put
  \<^verbatim>\<open>email\<close> into its result whenever \<^verbatim>\<open>email\<close> is included and not excluded. Then the
  mapping that \<^verbatim>\<open>ProfileResource.serialize\<close> returns never holds the key \<^verbatim>\<open>password\<close>,
  and when neither the caller nor the instance is anonymous it holds \<^verbatim>\<open>email\<close> if and
  only if the caller has the instance's id or is a superuser.
\<close>

theorem ProfileResource_serialize_password_email:
  assumes excl: "\<And>i inc exc k. k \<in> set exc \<Longrightarrow> k \<notin> dict_keys (instance_as_dict X i inc exc)"
      and incl: "\<And>u inc exc. ''email'' \<in> set inc \<Longrightarrow> ''email'' \<notin> set exc \<Longrightarrow>
                   ''email'' \<in> dict_keys (instance_as_dict X (Some u) inc exc)"
  shows "''password'' \<notin> dict_keys (ProfileResource_serialize X target w) \<and>
         (current_user w = Some g_user \<longrightarrow> target = Some inst \<longrightarrow>
            (''email'' \<in> dict_keys (ProfileResource_serialize X target w)) =
            (uid g_user = uid inst \<or> is_superuser X g_user))"
proof -
  have p: "''password'' \<notin> dict_keys (ProfileResource_serialize X target w)"
  proof (cases "current_user w = None \<or> target = None")
    case True
    then show ?thesis using excl by (simp add: serialize_anonymous)
  next
    case False
    then obtain g i where gi: "current_user w = Some g" "target = Some i" by auto
    have "''password'' \<notin> dict_keys (instance_as_dict X (Some i) inc
             (if c then [''password'', ''email''] else [''password'']))" for inc c
      by (rule excl) simp
    then show ?thesis unfolding gi(2) serialize_keys[OF gi(1)]
      using billing_not_password delivery_not_password by simp
  qed
  have e: "(''email'' \<in> dict_keys (ProfileResource_serialize X target w)) =
           (uid g_user = uid inst \<or> is_superuser X g_user)"
    if g: "current_user w = Some g_user" and i: "target = Some inst"
  proof (cases "uid g_user \<noteq> uid inst \<and> is_superuser X g_user = False")
    case True
    have "''email'' \<notin> dict_keys (instance_as_dict X (Some inst) serialize_include
                                    [''password'', ''email''])"
      by (rule excl) simp
    then show ?thesis unfolding i serialize_keys[OF g]
      using True billing_not_email delivery_not_email by simp
  next
    case False
    have "''email'' \<in> dict_keys (instance_as_dict X (Some inst)
                                   (serialize_include @ [''email'']) [''password''])"
      by (rule incl) simp_all
    then show ?thesis unfolding i serialize_keys[OF g]
      using False by auto
  qed
  show ?thesis using p e by simp
qed

lemma demo_as_dict_excludes:
  "k \<in> set exc \<Longrightarrow> k \<notin> dict_keys (instance_as_dict demo_ext i inc exc)"
  by (cases i) (auto simp: demo_ext_def demo_as_dict_def dict_keys_def)

lemma demo_as_dict_includes_email:
  "''email'' \<in> set inc \<Longrightarrow> ''email'' \<notin> set exc \<Longrightarrow>
   ''email'' \<in> dict_keys (instance_as_dict demo_ext (Some u) inc exc)"
  by (simp add: demo_ext_def demo_as_dict_def dict_keys_def user_columns_def)

theorem ProfileResource_serialize_witness:
  "''password'' \<notin> dict_keys (ProfileResource_serialize demo_ext (Some alice)
                                  (demo_world\<lparr>current_user := Some alice\<rparr>)) \<and>
   ''email'' \<in> dict_keys (ProfileResource_serialize demo_ext (Some alice)
                             (demo_world\<lparr>current_user := Some alice\<rparr>)) \<and>
   ''email'' \<in> dict_keys (ProfileResource_serialize demo_ext (Some alice)
                             (demo_world\<lparr>current_user := Some admin\<rparr>)) \<and>
   ''email'' \<notin> dict_keys (ProfileResource_serialize demo_ext (Some admin)
                               (demo_world\<lparr>current_user := Some alice\<rparr>))"
  using ProfileResource_serialize_password_email [OF demo_as_dict_excludes demo_as_dict_includes_email,
          where w = "demo_world\<lparr>current_user := Some alice\<rparr>" and g_user = alice
            and inst = alice and target = "Some alice"]
        ProfileResource_serialize_password_email [OF demo_as_dict_excludes demo_as_dict_includes_email,
          where w = "demo_world\<lparr>current_user := Some admin\<rparr>" and g_user = admin
            and inst = alice and target = "Some alice"]
        ProfileResource_serialize_password_email [OF demo_as_dict_excludes demo_as_dict_includes_email,
          where w = "demo_world\<lparr>current_user := Some alice\<rparr>" and g_user = alice
            and inst = admin and target = "Some admin"]
  by (simp add: demo_ext_def admin_def alice_def)

lemma ProfileResource_serialize_alice:
  "ProfileResource_serialize demo_ext (Some alice) (demo_world\<lparr>current_user := Some admin\<rparr>) =
     [(''id'', JInt 2), (''email'', JStr ''alice@example.com''), (''active'', JBool True),
      (''first_name'', JStr ''Alice''), (''shop_id'', JInt 1), (''billing_city'', JStr ''Kyiv'')]"
  by (simp add: ProfileResource_serialize_def demo_ext_def demo_as_dict_def user_columns_def
        alice_def admin_def demo_world_def user_customer_def add_address_prefix_def
        dict_update_def serialize_include_def)

subsection \<open>Logging out\<close>

lemma get_response_cases:
  "session w ''id'' = None \<Longrightarrow> get_response X kwargs w = (Inl (KeyError ''id''), w)"
  "session w ''id'' = Some sid \<Longrightarrow> \<exists>r. get_response X kwargs w = (Inr r, w)"
  by (simp_all add: get_response_def Let_def)

lemma SessionResource_delete_unfold:
  "SessionResource_delete X w =
     (let final = logout_user X (identity_changed_send X
                    (w\<lparr>session := (session w)(''identity.name'' := None,
                           ''identity.auth_type'' := None, ''customer_id'' := None)\<rparr>))
      in bindM (get_response X []) (\<lambda>r. returnM (jsonify_status_code (JDict r) NO_CONTENT)) final)"
  by (simp add: SessionResource_delete_def bindM_simps session_pop_def Let_def)

text \<open>
  C10. \<^verbatim>\<open>SessionResource.delete\<close> removes exactly the keys
  \<^verbatim>\<open>identity.name\<close>, \<^verbatim>\<open>identity.auth_type\<close> and \<^verbatim>\<open>customer_id\<close> from the session,
  whether they are present or not, and leaves every other entry as it is; the world it
  ends in is what \<^verbatim>\<open>identity_changed.send\<close> and then \<^verbatim>\<open>logout_user\<close> make of that. When the
  session then holds \<^verbatim>\<open>id\<close> the response has status 204 NO_CONTENT; when it does not,
  \<^verbatim>\<open>_get_response\<close> raises KeyError.
\<close>

theorem SessionResource_delete_effect:
  "snd (SessionResource_delete X w) =
     logout_user X (identity_changed_send X
        (w\<lparr>session := (session w)(''identity.name'' := None, ''identity.auth_type'' := None,
                                   ''customer_id'' := None)\<rparr>)) \<and>
   (\<forall>k. ((session w)(''identity.name'' := None, ''identity.auth_type'' := None,
                      ''customer_id'' := None)) k =
        (if k \<in> {''identity.name'', ''identity.auth_type'', ''customer_id''} then None
         else session w k)) \<and>
   (session (snd (SessionResource_delete X w)) ''id'' \<noteq> None \<longrightarrow>
      (\<exists>r. fst (SessionResource_delete X w) = Inr r \<and> status r = NO_CONTENT)) \<and>
   (session (snd (SessionResource_delete X w)) ''id'' = None \<longrightarrow>
      fst (SessionResource_delete X w) = Inl (KeyError ''id''))"
proof -
  let ?final = "logout_user X (identity_changed_send X
        (w\<lparr>session := (session w)(''identity.name'' := None, ''identity.auth_type'' := None,
                                   ''customer_id'' := None)\<rparr>))"
  have u: "SessionResource_delete X w =
             bindM (get_response X []) (\<lambda>r. returnM (jsonify_status_code (JDict r) NO_CONTENT)) ?final"
    by (simp add: SessionResource_delete_unfold Let_def)
  have a: "snd (SessionResource_delete X w) = ?final"
  proof (cases "session ?final ''id''")
    case None
    then show ?thesis unfolding u by (simp add: bindM_result(2)[OF get_response_cases(1)])
  next
    case (Some sid)
    then obtain r where "get_response X [] ?final = (Inr r, ?final)"
      using get_response_cases(2) by blast
    then show ?thesis unfolding u by (simp add: bindM_result(1) returnM_def)
  qed
  have b: "fst (SessionResource_delete X w) = Inl (KeyError ''id'')" if "session ?final ''id'' = None"
    unfolding u using that by (simp add: bindM_result(2)[OF get_response_cases(1)])
  have c: "\<exists>r. fst (SessionResource_delete X w) = Inr r \<and> status r = NO_CONTENT"
    if "session ?final ''id'' \<noteq> None"
  proof -
    from that obtain sid where "session ?final ''id'' = Some sid" by auto
    then obtain r where "get_response X [] ?final = (Inr r, ?final)"
      using get_response_cases(2) by blast
    then show ?thesis unfolding u
      by (simp add: bindM_result(1) returnM_def jsonify_status_code_def)
  qed
  show ?thesis using a b c by simp
qed

theorem SessionResource_delete_effect_witness:
  "session (snd (SessionResource_delete demo_ext logged_in_world)) ''id'' \<noteq> None \<and>
   session (snd (SessionResource_delete demo_ext logged_in_world)) ''customer_id'' = None \<and>
   (\<exists>r. fst (SessionResource_delete demo_ext logged_in_world) = Inr r \<and> status r = NO_CONTENT)"
  using SessionResource_delete_effect [of demo_ext logged_in_world]
  by (simp add: demo_ext_def logged_in_world_def demo_world_def)

text \<open>
  C10 as stated fails: with a \<^verbatim>\<open>logout_user\<close> that removes the session's \<^verbatim>\<open>user_id\<close>
  (the entry \<^verbatim>\<open>login_user\<close> wrote), the entry \<^verbatim>\<open>user_id\<close>, which is none of the three
  keys, is gone after \<^verbatim>\<open>delete\<close>.
\<close>

theorem SessionResource_delete_changes_user_id:
  "''user_id'' \<notin> {''identity.name'', ''identity.auth_type'', ''customer_id''} \<and>
   session logged_in_world ''user_id'' = Some (JInt 2) \<and>
   session (snd (SessionResource_delete demo_ext logged_in_world)) ''user_id'' = None"
  by (simp add: SessionResource_delete_unfold Let_def bindM_def get_response_def returnM_def
        demo_ext_def logged_in_world_def demo_world_def split: prod.splits sum.splits)

subsection \<open>Logging in\<close>

lemma find_filter_keeps:
  assumes "\<And>x. x \<in> set xs \<Longrightarrow> P x \<Longrightarrow> Q x"
  shows "find P (filter Q xs) = find P xs"
  using assms by (induction xs) auto

lemma filter_filter_keeps:
  assumes "\<And>x. x \<in> set xs \<Longrightarrow> P x \<Longrightarrow> Q x"
  shows "filter P (filter Q xs) = filter P xs"
  using assms by (induction xs) auto

lemma Customer_query_get_Some:
  "Customer_query_get cid w = Some c \<Longrightarrow> c \<in> set (customers w) \<and> cid = JInt (customer_id c)"
  by (auto simp: Customer_query_get_def find_Some_iff)

lemma same_key_same_customer:
  assumes "distinct (map customer_id (customers w))"
      and "c \<in> set (customers w)" "x \<in> set (customers w)" "customer_id x = customer_id c"
  shows "x = c"
  using assms unfolding distinct_map by (blast dest: inj_onD)

lemma customers_of_user_kept:
  assumes d: "distinct (map customer_id (customers w))"
      and c: "c \<in> set (customers w)" "user_id c = None"
  shows "x \<in> set (customers w) \<Longrightarrow> user_id x = Some n \<Longrightarrow> customer_id x \<noteq> customer_id c"
proof
  assume x: "x \<in> set (customers w)" "user_id x = Some n" "customer_id x = customer_id c"
  then have "x = c" using same_key_same_customer[OF d c(1)] by simp
  then show False using x(2) c(2) by simp
qed

lemma merge_anonymous_customer_result:
  assumes "session w ''customer_id'' = Some cid"
      and "Customer_query_get cid w = Some c" "user_id c = None"
  shows "merge_anonymous_customer X u w =
           (case user_customer u w of
              None \<Rightarrow> (Inl AttributeError, w)
            | Some own \<Rightarrow>
                (Inr (), customer_delete c
                           (carts_update_customer_id (for_customer X c) (customer_id own) w)))"
proof -
  have "cid = JInt (customer_id c)" using assms(2) Customer_query_get_Some by blast
  then have g: "session_get w ''customer_id'' = cid" "cid \<noteq> JNull"
    using assms(1) by (simp_all add: session_get_def)
  show ?thesis
    using g assms(2,3)
    by (simp add: merge_anonymous_customer_def user_customer_id_def bindM_def readM_def
          returnM_def modifyM_def split: option.split)
qed

lemma authenticate_after_login:
  assumes ok: "authenticate X data_dict w = (Inr r, w')"
      and e: "subscript data_dict ''email'' = Inr em" "find_user em w = Some u"
  shows "bindM (merge_anonymous_customer X u) (\<lambda>_.
         bindM (user_customer_id u) (\<lambda>own.
         bindM (modifyM (session_set ''customer_id'' (JInt own))) (\<lambda>_.
         returnM data_dict))) (login_user X u w) = (Inr r, w')"
  using ok e
  by (simp add: authenticate_def bindM_simps raiseM_def split: if_splits)

text \<open>
  C1. Let \<^verbatim>\<open>_authenticate\<close> succeed for the user \<open>u\<close> found by the email, and let the
  session, when \<^verbatim>\<open>login_user\<close> has run, hold a \<^verbatim>\<open>customer_id\<close> that refers to an existing
  customer \<open>c\<close> without a user (the customers' ids being a primary key). Then the user
  has a customer \<open>own\<close>; every cart row that \<^verbatim>\<open>Cart.for_customer(c)\<close> selects has its
  \<^verbatim>\<open>customer_id\<close> set to the id of \<open>own\<close> and no other cart row changes; \<open>c\<close> is
  deleted and no other customer is; \<^verbatim>\<open>session['customer_id']\<close> is the id of \<open>own\<close>; and
  the customers of the user are the same as before, so a user with at most one customer
  has exactly one after the login.
\<close>

theorem authenticate_merges_anonymous_customer:
  assumes ok: "authenticate X data_dict w = (Inr r, w')"
      and e: "subscript data_dict ''email'' = Inr em" "find_user em w = Some u"
      and w1: "w1 = login_user X u w"
      and pk: "distinct (map customer_id (customers w1))"
      and s: "session w1 ''customer_id'' = Some cid"
      and c: "Customer_query_get cid w1 = Some c" "user_id c = None"
  shows "\<exists>own. user_customer u w1 = Some own \<and>
           carts w' = map (\<lambda>row. if for_customer X c row
                                   then row\<lparr>cart_customer_id := customer_id own\<rparr> else row)
                          (carts w1) \<and>
           customers w' = filter (\<lambda>x. customer_id x \<noteq> customer_id c) (customers w1) \<and>
           c \<notin> set (customers w') \<and>
           session w' = (session w1)(''customer_id'' \<mapsto> JInt (customer_id own)) \<and>
           filter (\<lambda>x. user_id x = Some (uid u)) (customers w') =
             filter (\<lambda>x. user_id x = Some (uid u)) (customers w1) \<and>
           (length (filter (\<lambda>x. user_id x = Some (uid u)) (customers w1)) \<le> 1 \<longrightarrow>
            length (filter (\<lambda>x. user_id x = Some (uid u)) (customers w')) = 1)"
proof -
  have run: "bindM (merge_anonymous_customer X u) (\<lambda>_.
         bindM (user_customer_id u) (\<lambda>own.
         bindM (modifyM (session_set ''customer_id'' (JInt own))) (\<lambda>_.
         returnM data_dict))) w1 = (Inr r, w')"
    unfolding w1 using ok e by (rule authenticate_after_login)
  have m: "merge_anonymous_customer X u w1 =
           (case user_customer u w1 of
              None \<Rightarrow> (Inl AttributeError, w1)
            | Some own \<Rightarrow>
                (Inr (), customer_delete c
                           (carts_update_customer_id (for_customer X c) (customer_id own) w1)))"
    using s c by (rule merge_anonymous_customer_result)
  obtain own where own: "user_customer u w1 = Some own"
    using run m by (cases "user_customer u w1") (simp_all add: bindM_def)
  let ?w2 = "customer_delete c (carts_update_customer_id (for_customer X c) (customer_id own) w1)"
  have cin: "c \<in> set (customers w1)" using c(1) Customer_query_get_Some by blast
  have keep: "\<And>x. x \<in> set (customers w1) \<Longrightarrow> user_id x = Some (uid u) \<Longrightarrow>
                customer_id x \<noteq> customer_id c"
    using customers_of_user_kept[OF pk cin c(2)] by blast
  have cust2: "customers ?w2 = filter (\<lambda>x. customer_id x \<noteq> customer_id c) (customers w1)"
    by (simp add: customer_delete_def carts_update_customer_id_def)
  have own2: "user_customer u ?w2 = Some own"
    unfolding user_customer_def cust2
    using find_filter_keeps[of "customers w1" "\<lambda>x. user_id x = Some (uid u)"
            "\<lambda>x. customer_id x \<noteq> customer_id c"] keep own
    by (simp add: user_customer_def)
  have w': "w' = session_set ''customer_id'' (JInt (customer_id own)) ?w2"
    using run m own own2
    by (simp add: bindM_def user_customer_id_def modifyM_def returnM_def)
  have f: "filter (\<lambda>x. user_id x = Some (uid u)) (customers w') =
             filter (\<lambda>x. user_id x = Some (uid u)) (customers w1)"
    unfolding w' using filter_filter_keeps[of "customers w1" "\<lambda>x. user_id x = Some (uid u)"
            "\<lambda>x. customer_id x \<noteq> customer_id c"] keep
    by (simp add: session_set_def cust2)
  have "own \<in> set (customers w1) \<and> user_id own = Some (uid u)"
    using own by (auto simp: user_customer_def find_Some_iff)
  then have "own \<in> set (filter (\<lambda>x. user_id x = Some (uid u)) (customers w1))" by simp
  then have ne: "length (filter (\<lambda>x. user_id x = Some (uid u)) (customers w1)) \<ge> 1"
    by (cases "filter (\<lambda>x. user_id x = Some (uid u)) (customers w1)") simp_all
  have "carts w' = map (\<lambda>row. if for_customer X c row
                                   then row\<lparr>cart_customer_id := customer_id own\<rparr> else row)
                          (carts w1)"
    unfolding w' by (simp add: session_set_def customer_delete_def carts_update_customer_id_def)
  moreover have "customers w' = filter (\<lambda>x. customer_id x \<noteq> customer_id c) (customers w1)"
    unfolding w' by (simp add: session_set_def cust2)
  moreover have "session w' = (session w1)(''customer_id'' \<mapsto> JInt (customer_id own))"
    unfolding w' by (simp add: session_set_def customer_delete_def carts_update_customer_id_def)
  ultimately show ?thesis using own f ne by simp
qed

lemma authenticate_alice:
  "authenticate demo_ext alice_credentials demo_world =
     (Inr alice_credentials,
      demo_world\<lparr>session := [''id'' \<mapsto> JStr ''s-1'', ''customer_id'' \<mapsto> JInt 20,
                                ''user_id'' \<mapsto> JInt 2],
                 current_user := Some alice,
                 customers := [\<lparr>customer_id = 10, user_id = Some 1, shop_id = JInt 1\<rparr>,
                               \<lparr>customer_id = 20, user_id = Some 2, shop_id = JInt 1\<rparr>],
                 carts := [\<lparr>cart_id = 1, cart_customer_id = 20, cart_columns = []\<rparr>,
                           \<lparr>cart_id = 2, cart_customer_id = 10, cart_columns = []\<rparr>,
                           \<lparr>cart_id = 3, cart_customer_id = 20, cart_columns = []\<rparr>]\<rparr>)"
  by (simp add: authenticate_def merge_anonymous_customer_def bindM_def readM_def returnM_def
        modifyM_def liftE_def raiseM_def subscript_def dict_get_def find_user_def
        user_customer_id_def user_customer_def Customer_query_get_def session_get_def
        session_set_def carts_update_customer_id_def customer_delete_def
        alice_credentials_def demo_ext_def demo_world_def alice_def admin_def fun_upd_twist)

theorem authenticate_merges_anonymous_customer_witness:
  "authenticate demo_ext alice_credentials demo_world =
     (Inr alice_credentials, snd (authenticate demo_ext alice_credentials demo_world)) \<and>
   subscript alice_credentials ''email'' = Inr (JStr ''alice@example.com'') \<and>
   find_user (JStr ''alice@example.com'') demo_world = Some alice \<and>
   distinct (map customer_id (customers (login_user demo_ext alice demo_world))) \<and>
   session (login_user demo_ext alice demo_world) ''customer_id'' = Some (JInt 30) \<and>
   Customer_query_get (JInt 30) (login_user demo_ext alice demo_world) =
     Some \<lparr>customer_id = 30, user_id = None, shop_id = JInt 1\<rparr> \<and>
   carts (snd (authenticate demo_ext alice_credentials demo_world)) =
     [\<lparr>cart_id = 1, cart_customer_id = 20, cart_columns = []\<rparr>,
      \<lparr>cart_id = 2, cart_customer_id = 10, cart_columns = []\<rparr>,
      \<lparr>cart_id = 3, cart_customer_id = 20, cart_columns = []\<rparr>] \<and>
   customers (snd (authenticate demo_ext alice_credentials demo_world)) =
     [\<lparr>customer_id = 10, user_id = Some 1, shop_id = JInt 1\<rparr>,
      \<lparr>customer_id = 20, user_id = Some 2, shop_id = JInt 1\<rparr>] \<and>
   session (snd (authenticate demo_ext alice_credentials demo_world)) ''customer_id'' =
     Some (JInt 20) \<and>
   length (filter (\<lambda>x. user_id x = Some (uid alice))
             (customers (snd (authenticate demo_ext alice_credentials demo_world)))) = 1"
  using authenticate_merges_anonymous_customer
          [where X = demo_ext and data_dict = alice_credentials and w = demo_world
             and r = alice_credentials
             and w' = "snd (authenticate demo_ext alice_credentials demo_world)"
             and em = "JStr ''alice@example.com''" and u = alice
             and ?w1.0 = "login_user demo_ext alice demo_world"
             and cid = "JInt 30"
             and c = "\<lparr>customer_id = 30, user_id = None, shop_id = JInt 1\<rparr>"]
  by (simp add: authenticate_alice)
     (simp add: alice_credentials_def subscript_def find_user_def demo_ext_def demo_world_def
        alice_def admin_def Customer_query_get_def)

subsection \<open>Invalid request bodies\<close>

lemma except_DataError_raised:
  "m w = (Inl (DataError e), w') \<Longrightarrow> except_DataError m h w = h e w'"
  by (simp add: except_DataError_def)





lemma request_data_invalid:
  "(if truthy (req_json req) then Inr (req_json req) else json_loads R (req_data req)) = Inr d \<Longrightarrow>
   validation_check R d = Inl (DataError e) \<Longrightarrow> request_data R req = Inl (DataError e)"
  by (simp add: request_data_def Let_def)







lemma method_wrapper_falsy:
  "\<not> truthy (req_json req) \<Longrightarrow>
   method_wrapper http_status meth req w = (Inl (Abort BAD_REQUEST), w)"
  by (simp add: method_wrapper_def except_DataError_def raiseM_def)


lemma login_required_logged_in:
  "current_user w = Some u \<Longrightarrow> login_required fn w = fn w"
  by (simp add: login_required_def)










end
